theory Spec2Isabelle
  imports Complex_Main "HOL-Library.AList"
begin

text \<open>
  A shallow embedding of the EC2 telemetry pipeline: the collector
  (\<open>ec2_cloudwatch_metrics.py\<close>), which fetches CloudWatch datapoints and normalizes
  them into one frame, and the loader (\<open>s3ToPostgresETL.py\<close>), which selects the
  Parquet objects of the lookback window, aggregates them by day and upserts the
  aggregates into the warehouse table. pandas, s3fs, CloudWatch and PostgreSQL are
  modelled as far as the two programs use them; clocks are arguments, exceptions are
  values of a sum type, and the warehouse table is passed in and returned.
\<close>

section \<open>Data model\<close>

text \<open>
  A cell of a pandas DataFrame or of a Python row dictionary. \<open>Null\<close> stands for
  \<open>None\<close>, \<open>NaN\<close>, \<open>NaT\<close> and \<open>pd.NA\<close>. A \<open>Num\<close> cell stands for a value pandas reads
  as a number; \<open>float64\<close> values are idealised as exact rationals. A \<open>TS\<close> cell stands
  for a value pandas reads as an instant, counted in nanoseconds since the epoch (UTC);
  a \<open>Day\<close> cell is a calendar date, counted in days since the epoch.
\<close>

datatype cell = Null | Str string | Num rat | TS int | Day int

datatype error =
    KeyError string
  | ValueError string
  | RuntimeError string
  | IOError string
  | CompileError
  | NotNullViolation
  | CardinalityViolation

text \<open>A Python \<open>dict\<close> with string keys, in insertion order.\<close>

type_synonym pydict = "(string \<times> cell) list"

definition get_cell :: "pydict \<Rightarrow> string \<Rightarrow> cell" where
  "get_cell d c = (case map_of d c of Some v \<Rightarrow> v | None \<Rightarrow> Null)"

definition has_key :: "pydict \<Rightarrow> string \<Rightarrow> bool" where
  "has_key d c = (c \<in> set (map fst d))"

text \<open>
  A DataFrame: its column labels in order, and its rows. A row is read through
  \<open>get_cell\<close>, so a cell that a row does not carry reads as \<open>Null\<close>, as pandas fills it.
\<close>

record dataframe =
  columns :: "string list"
  rows :: "pydict list"

definition df_empty :: "dataframe \<Rightarrow> bool" where
  "df_empty df = (columns df = [] \<or> rows df = [])"

definition to_records :: "dataframe \<Rightarrow> pydict list" where
  "to_records df = map (\<lambda>r. map (\<lambda>c. (c, get_cell r c)) (columns df)) (rows df)"

definition first_seen :: "'a list \<Rightarrow> 'a list" where
  "first_seen xs = rev (remdups (rev xs))"

definition assign_column :: "string \<Rightarrow> (pydict \<Rightarrow> cell) \<Rightarrow> dataframe \<Rightarrow> dataframe" where
  "assign_column c f df =
     \<lparr> columns = (if c \<in> set (columns df) then columns df else columns df @ [c]),
       rows = map (\<lambda>r. AList.update c (f r) r) (rows df) \<rparr>"

definition pd_concat :: "dataframe list \<Rightarrow> error + dataframe" where
  "pd_concat dfs =
     (if dfs = [] then Inl (ValueError ''No objects to concatenate'')
      else Inr \<lparr> columns = first_seen (concat (map columns dfs)),
                 rows = concat (map to_records dfs) \<rparr>)"

section \<open>Load side: extraction-window selector (extract_from_s3)\<close>

subsection \<open>Python string helpers\<close>

fun split_on :: "char \<Rightarrow> string \<Rightarrow> string list" where
  "split_on sep [] = [[]]"
| "split_on sep (c # cs) =
     (if c = sep then [] # split_on sep cs
      else (case split_on sep cs of
              w # ws \<Rightarrow> (c # w) # ws
            | [] \<Rightarrow> [[c]]))"

definition is_space :: "char \<Rightarrow> bool" where
  "is_space c = ((9 :: nat) \<le> of_char c \<and> of_char c \<le> (13 :: nat)
                 \<or> (28 :: nat) \<le> of_char c \<and> of_char c \<le> (32 :: nat))"

definition strip :: "string \<Rightarrow> string" where
  "strip s = rev (dropWhile is_space (rev (dropWhile is_space s)))"

definition is_digit :: "char \<Rightarrow> bool" where
  "is_digit c = ((48 :: nat) \<le> of_char c \<and> of_char c \<le> (57 :: nat))"

definition digit_val :: "char \<Rightarrow> nat" where
  "digit_val c = of_char c - 48"

text \<open>
  The digits of a decimal literal as \<open>int()\<close> reads them: one underscore is allowed
  between two digits. The flag says that the previous character was a digit.
  \<open>int()\<close> strips white space and takes one sign; characters are bytes here, so
  only the ASCII digits and the ASCII white space are read.
\<close>

fun py_digits :: "nat \<Rightarrow> bool \<Rightarrow> string \<Rightarrow> nat option" where
  "py_digits acc ok [] = (if ok then Some acc else None)"
| "py_digits acc ok (c # cs) =
     (if is_digit c then py_digits (10 * acc + digit_val c) True cs
      else if c = CHR ''_'' \<and> ok then py_digits acc False cs
      else None)"

definition py_int :: "string \<Rightarrow> int option" where
  "py_int s =
     (case strip s of
        [] \<Rightarrow> None
      | c # cs \<Rightarrow>
          if c = CHR ''-'' then map_option (\<lambda>n. - int n) (py_digits 0 False cs)
          else if c = CHR ''+'' then map_option int (py_digits 0 False cs)
          else map_option int (py_digits 0 False (c # cs)))"

subsection \<open>Partition dates\<close>

definition ns_per_day :: int where
  "ns_per_day = 86400000000000"

definition is_leap :: "int \<Rightarrow> bool" where
  "is_leap y = (y mod 4 = 0 \<and> (y mod 100 \<noteq> 0 \<or> y mod 400 = 0))"

definition days_in_month :: "int \<Rightarrow> int \<Rightarrow> int" where
  "days_in_month y m =
     (if m = 2 then (if is_leap y then 29 else 28)
      else if m = 4 \<or> m = 6 \<or> m = 9 \<or> m = 11 then 30 else 31)"

definition valid_date :: "int \<Rightarrow> int \<Rightarrow> int \<Rightarrow> bool" where
  "valid_date y m d =
     (1 \<le> y \<and> y \<le> 9999 \<and> 1 \<le> m \<and> m \<le> 12 \<and> 1 \<le> d \<and> d \<le> days_in_month y m)"

definition days_from_civil :: "int \<Rightarrow> int \<Rightarrow> int \<Rightarrow> int" where
  "days_from_civil y m d =
     (let y' = (if m \<le> 2 then y - 1 else y);
          era = y' div 400;
          yoe = y' - era * 400;
          doy = (153 * (if m > 2 then m - 3 else m + 9) + 2) div 5 + d - 1;
          doe = yoe * 365 + yoe div 4 - yoe div 100 + doy
      in era * 146097 + doe - 719468)"

text \<open>
  \<open>pd.Timestamp(year=y, month=m, day=d, tz="UTC")\<close>: midnight of the date, or an
  exception (\<open>None\<close>) when the three numbers are not a date of the calendar. The
  years are those of Python's \<open>datetime\<close>, 1 to 9999; a pandas that keeps all
  timestamps within its nanosecond range raises on more dates than these.
\<close>

definition pd_Timestamp :: "int \<Rightarrow> int \<Rightarrow> int \<Rightarrow> int option" where
  "pd_Timestamp y m d =
     (if valid_date y m d then Some (days_from_civil y m d * ns_per_day) else None)"

text \<open>
  Lines 106-107: the dictionary comprehension over the path segments that contain
  \<open>=\<close>. A later segment with the same name replaces an earlier one; \<open>None\<close> when
  \<open>int()\<close> raises on some segment.
\<close>

fun parse_parts :: "(string \<times> int) list \<Rightarrow> string list \<Rightarrow> (string \<times> int) list option" where
  "parse_parts acc [] = Some acc"
| "parse_parts acc (p # ps) =
     (if CHR ''='' \<in> set p then
        (case split_on (CHR ''='') p of
           k # v # rest \<Rightarrow>
             (case py_int v of
                None \<Rightarrow> None
              | Some n \<Rightarrow> parse_parts (AList.update k n acc) ps)
         | _ \<Rightarrow> None)
      else parse_parts acc ps)"

text \<open>
  Lines 104-110, the body of the \<open>try\<close>: the partition date of a path, or \<open>None\<close>
  when any step raises (\<open>ValueError\<close> of \<open>int()\<close>, \<open>KeyError\<close> of a missing segment,
  \<open>ValueError\<close> of an impossible date).
\<close>

definition file_date :: "string \<Rightarrow> int option" where
  "file_date f =
     (case parse_parts [] (split_on (CHR ''/'') f) of
        None \<Rightarrow> None
      | Some parts \<Rightarrow>
          (case map_of parts ''year'' of
             None \<Rightarrow> None
           | Some y \<Rightarrow>
               (case map_of parts ''month'' of
                  None \<Rightarrow> None
                | Some m \<Rightarrow>
                    (case map_of parts ''day'' of
                       None \<Rightarrow> None
                     | Some d \<Rightarrow> pd_Timestamp y m d))))"

text \<open>Lines 103-114: one turn of the loop, \<open>except Exception: filtered.append(f)\<close>.\<close>

definition keep_file :: "int \<Rightarrow> string \<Rightarrow> bool" where
  "keep_file cutoff_date f =
     (case file_date f of
        None \<Rightarrow> True
      | Some d \<Rightarrow> d \<ge> cutoff_date)"

record config =
  s3_bucket :: string
  s3_prefix :: string
  lookback_days :: int

text \<open>
  Lines 100-116. \<open>now\<close> is the reading of \<open>pd.Timestamp.now(tz="UTC")\<close>. A value of 0
  for \<open>lookback_days\<close> is falsy in Python and switches the filter off.
\<close>

definition select_files :: "config \<Rightarrow> int \<Rightarrow> string list \<Rightarrow> string list" where
  "select_files cfg now all_files =
     (if lookback_days cfg \<noteq> 0
      then filter (keep_file (now - lookback_days cfg * ns_per_day)) all_files
      else all_files)"

text \<open>
  The object store as \<open>s3fs\<close> shows it: the result of \<open>fs.glob\<close> for the Parquet
  pattern under the bucket and prefix (\<open>None\<close> when the listing raises), and the
  DataFrame that \<open>pd.read_parquet\<close> reads from each object (\<open>None\<close> when opening or
  reading raises).
\<close>

record s3fs =
  listing :: "string list option"
  objects :: "string \<Rightarrow> dataframe option"

fun read_files :: "s3fs \<Rightarrow> string list \<Rightarrow> error + dataframe list" where
  "read_files fs [] = Inr []"
| "read_files fs (f # fs') =
     (case objects fs f of
        None \<Rightarrow> Inl (IOError f)
      | Some d \<Rightarrow>
          (case read_files fs fs' of
             Inl e \<Rightarrow> Inl e
           | Inr ds \<Rightarrow> Inr (d # ds)))"

definition extract_from_s3 :: "config \<Rightarrow> s3fs \<Rightarrow> int \<Rightarrow> error + dataframe" where
  "extract_from_s3 cfg fs now =
     (case listing fs of
        None \<Rightarrow> Inl (RuntimeError ''Failed to list S3 files'')
      | Some all_files \<Rightarrow>
          if all_files = [] then Inl (ValueError ''No Parquet files found'')
          else (case read_files fs (select_files cfg now all_files) of
                  Inl e \<Rightarrow> Inl e
                | Inr dfs \<Rightarrow> pd_concat dfs))"

section \<open>Load side: daily aggregator (transform_to_daily)\<close>

text \<open>
  \<open>pd.to_datetime(..., utc=True, errors="coerce")\<close>: an instant stays, every value
  pandas cannot read as an instant becomes \<open>NaT\<close>.
\<close>

fun to_datetime_coerce :: "cell \<Rightarrow> cell" where
  "to_datetime_coerce (TS t) = TS t"
| "to_datetime_coerce _ = Null"

text \<open>\<open>.dt.date\<close>: the calendar day (UTC) of an instant.\<close>

fun dt_date :: "cell \<Rightarrow> cell" where
  "dt_date (TS t) = Day (t div ns_per_day)"
| "dt_date _ = Null"

text \<open>Lines 145-147: coerce the timestamps, drop the rows without one, add the day.\<close>

definition prepare :: "dataframe \<Rightarrow> dataframe" where
  "prepare df =
     (let d1 = assign_column ''timestamp'' (\<lambda>r. to_datetime_coerce (get_cell r ''timestamp'')) df;
          d2 = d1 \<lparr> rows := filter (\<lambda>r. get_cell r ''timestamp'' \<noteq> Null) (rows d1) \<rparr>
      in assign_column ''day_bucket'' (\<lambda>r. dt_date (get_cell r ''timestamp'')) d2)"

definition GROUP_KEYS :: "string list" where
  "GROUP_KEYS = [''instance_id'', ''instance_name'', ''instance_type'',
                 ''metric_name'', ''day_bucket'', ''category'', ''unit'', ''az'', ''platform'']"

datatype reducer = AggMean | AggMax | AggMin | AggSum

definition AGG_SPEC :: "(string \<times> reducer) list" where
  "AGG_SPEC = [(''stat_average'', AggMean), (''stat_maximum'', AggMax),
               (''stat_minimum'', AggMin), (''stat_sum'', AggSum)]"

definition STAT_COLS :: "string list" where
  "STAT_COLS = [''stat_average'', ''stat_maximum'', ''stat_minimum'', ''stat_sum'']"

text \<open>Line 154 and lines 156-164: only the columns that exist take part.\<close>

definition group_keys_of :: "string list \<Rightarrow> string list" where
  "group_keys_of cols = filter (\<lambda>k. k \<in> set cols) GROUP_KEYS"

definition agg_map_of :: "string list \<Rightarrow> (string \<times> reducer) list" where
  "agg_map_of cols = filter (\<lambda>cf. fst cf \<in> set cols) AGG_SPEC"

subsection \<open>pandas group-by\<close>

text \<open>The numbers of a column; pandas reducers skip the missing values.\<close>

definition nums :: "cell list \<Rightarrow> rat list" where
  "nums cs = concat (map (\<lambda>c. case c of Num q \<Rightarrow> [q] | _ \<Rightarrow> []) cs)"

fun reduce :: "reducer \<Rightarrow> rat list \<Rightarrow> cell" where
  "reduce AggMean xs = (if xs = [] then Null else Num (sum_list xs / of_nat (length xs)))"
| "reduce AggMax xs = (case xs of [] \<Rightarrow> Null | x # ys \<Rightarrow> Num (fold max ys x))"
| "reduce AggMin xs = (case xs of [] \<Rightarrow> Null | x # ys \<Rightarrow> Num (fold min ys x))"
| "reduce AggSum xs = Num (sum_list xs)"

definition key_of :: "string list \<Rightarrow> pydict \<Rightarrow> cell list" where
  "key_of ks r = map (get_cell r) ks"

text \<open>
  The order in which \<open>groupby\<close> (with its default \<open>sort=True\<close>) emits the groups:
  by key, column after column, strings by code point, missing values last.
\<close>

fun str_le :: "string \<Rightarrow> string \<Rightarrow> bool" where
  "str_le [] ys = True"
| "str_le (x # xs) [] = False"
| "str_le (x # xs) (y # ys) =
     (if x = y then str_le xs ys else (of_char x :: nat) < of_char y)"

fun cell_rank :: "cell \<Rightarrow> nat" where
  "cell_rank (Num q) = 0"
| "cell_rank (TS t) = 1"
| "cell_rank (Day d) = 2"
| "cell_rank (Str s) = 3"
| "cell_rank Null = 4"

fun cell_le :: "cell \<Rightarrow> cell \<Rightarrow> bool" where
  "cell_le (Str a) (Str b) = str_le a b"
| "cell_le (Num a) (Num b) = (a \<le> b)"
| "cell_le (TS a) (TS b) = (a \<le> b)"
| "cell_le (Day a) (Day b) = (a \<le> b)"
| "cell_le a b = (cell_rank a \<le> cell_rank b)"

fun key_le :: "cell list \<Rightarrow> cell list \<Rightarrow> bool" where
  "key_le [] bs = True"
| "key_le (a # as) [] = False"
| "key_le (a # as) (b # bs) = (if a = b then key_le as bs else cell_le a b)"

fun insert_key :: "cell list \<Rightarrow> cell list list \<Rightarrow> cell list list" where
  "insert_key k [] = [k]"
| "insert_key k (x # xs) = (if key_le k x then k # x # xs else x # insert_key k xs)"

definition sort_keys :: "cell list list \<Rightarrow> cell list list" where
  "sort_keys ks = foldr insert_key ks []"

text \<open>
  \<open>df.groupby(group_keys, dropna=False).agg(agg_map).reset_index()\<close>: one row for
  each key that occurs, holding the key columns and the reduced statistic columns.
\<close>

definition group_rows :: "string list \<Rightarrow> pydict list \<Rightarrow> cell list \<Rightarrow> pydict list" where
  "group_rows gk rs k = filter (\<lambda>r. key_of gk r = k) rs"

definition agg_row :: "string list \<Rightarrow> (string \<times> reducer) list \<Rightarrow> pydict list \<Rightarrow> cell list \<Rightarrow> pydict" where
  "agg_row gk am rs k =
     zip gk k @
     map (\<lambda>cf. (fst cf, reduce (snd cf) (nums (map (\<lambda>r. get_cell r (fst cf)) (group_rows gk rs k))))) am"

definition groupby_agg :: "string list \<Rightarrow> (string \<times> reducer) list \<Rightarrow> pydict list \<Rightarrow> dataframe" where
  "groupby_agg gk am rs =
     \<lparr> columns = gk @ map fst am,
       rows = map (agg_row gk am rs) (sort_keys (remdups (map (key_of gk) rs))) \<rparr>"

text \<open>Lines 173-175.\<close>

definition ensure_column :: "string \<Rightarrow> dataframe \<Rightarrow> dataframe" where
  "ensure_column c df = (if c \<in> set (columns df) then df else assign_column c (\<lambda>r. Null) df)"

text \<open>
  Lines 132-182. Reading a column that does not exist raises \<open>KeyError\<close> (the
  timestamp at line 145, the two columns counted for the log at lines 179-180), and
  \<open>agg\<close> with an empty mapping raises \<open>ValueError\<close>.
\<close>

definition transform_to_daily :: "dataframe \<Rightarrow> error + dataframe" where
  "transform_to_daily df =
     (if ''timestamp'' \<notin> set (columns df) then Inl (KeyError ''timestamp'')
      else
        let d = prepare df;
            group_keys = group_keys_of (columns d);
            agg_map = agg_map_of (columns d)
        in if agg_map = [] then Inl (ValueError ''No objects to concatenate'')
           else
             let aggregated = fold ensure_column STAT_COLS (groupby_agg group_keys agg_map (rows d))
             in if ''instance_id'' \<notin> set (columns aggregated) then Inl (KeyError ''instance_id'')
                else if ''metric_name'' \<notin> set (columns aggregated) then Inl (KeyError ''metric_name'')
                else Inr aggregated)"

section \<open>Load side: upsert loader (upsert_to_postgres)\<close>

text \<open>
  Modelled from the spec: the declaration of the warehouse table
  \<open>ec2_metrics_latest\<close> (the DDL file is not part of the sources). It is one base
  table keyed by (resource id, metric name, day), with the metadata and statistic
  columns of a daily aggregate and a last-loaded timestamp. Being the key, the three
  key columns are unique and not null; \<open>loaded_at\<close> defaults to the time of the
  statement, every other column to \<open>NULL\<close>.
\<close>

definition KEY_COLS :: "string list" where
  "KEY_COLS = [''instance_id'', ''metric_name'', ''day_bucket'']"

definition WH_COLUMNS :: "string list" where
  "WH_COLUMNS = [''instance_id'', ''instance_name'', ''instance_type'',
                 ''metric_name'', ''day_bucket'', ''category'', ''unit'', ''az'', ''platform'',
                 ''stat_average'', ''stat_maximum'', ''stat_minimum'', ''stat_sum'',
                 ''loaded_at'']"

definition column_default :: "int \<Rightarrow> string \<Rightarrow> cell" where
  "column_default now c = (if c = ''loaded_at'' then TS now else Null)"

type_synonym table = "pydict list"

definition conflict_key :: "pydict \<Rightarrow> cell list" where
  "conflict_key r = key_of KEY_COLS r"

text \<open>
  The row proposed for insertion (\<open>stmt.excluded\<close>): the values of the record, and
  the column default where the record has no value.
\<close>

definition excluded :: "int \<Rightarrow> pydict \<Rightarrow> pydict" where
  "excluded now rec =
     map (\<lambda>c. (c, if has_key rec c then get_cell rec c else column_default now c)) WH_COLUMNS"

text \<open>
  Lines 209-219, \<open>ON CONFLICT ... DO UPDATE SET\<close>: every column of the table but
  the three key columns takes the excluded value, then \<open>loaded_at\<close> is \<open>NOW()\<close>.
\<close>

definition do_update :: "int \<Rightarrow> pydict \<Rightarrow> pydict \<Rightarrow> pydict" where
  "do_update now old rec =
     map (\<lambda>c. (c, if c \<in> set KEY_COLS then get_cell old c
                  else if c = ''loaded_at'' then TS now
                  else get_cell (excluded now rec) c)) WH_COLUMNS"

fun upsert_row :: "int \<Rightarrow> table \<Rightarrow> pydict \<Rightarrow> table" where
  "upsert_row now [] rec = [excluded now rec]"
| "upsert_row now (old # tbl) rec =
     (if conflict_key old = conflict_key rec then do_update now old rec # tbl
      else old # upsert_row now tbl rec)"

text \<open>
  Lines 204-220, one \<open>INSERT ... ON CONFLICT DO UPDATE\<close> statement for a batch. The
  table is taken to exist, so that reflecting it (lines 225-228) succeeds.
  The statement is refused when a record names a column the table does not have,
  when a key column would be \<open>NULL\<close>, and when two records of the same statement
  have the same key (PostgreSQL does not update a row twice in one statement).
\<close>

definition batch_error :: "pydict list \<Rightarrow> error option" where
  "batch_error batch =
     (if list_ex (\<lambda>rec. list_ex (\<lambda>c. c \<notin> set WH_COLUMNS) (map fst rec)) batch
        then Some CompileError
      else if list_ex (\<lambda>rec. Null \<in> set (conflict_key rec)) batch
        then Some NotNullViolation
      else if \<not> distinct (map conflict_key batch)
        then Some CardinalityViolation
      else None)"

definition upsert_batch :: "int \<Rightarrow> table \<Rightarrow> pydict list \<Rightarrow> error + table" where
  "upsert_batch now conn batch =
     (case batch_error batch of
        Some e \<Rightarrow> Inl e
      | None \<Rightarrow> Inr (foldl (upsert_row now) conn batch))"

definition BATCH :: nat where
  "BATCH = 1000"

text \<open>Lines 232-236: the loop over the chunks, inside the one transaction.\<close>

function upsert_loop :: "int \<Rightarrow> pydict list \<Rightarrow> table \<Rightarrow> nat \<Rightarrow> nat \<Rightarrow> error + (table \<times> nat)" where
  "upsert_loop now records conn i inserted =
     (if i < length records then
        (case upsert_batch now conn (take BATCH (drop i records)) of
           Inl e \<Rightarrow> Inl e
         | Inr conn' \<Rightarrow>
             upsert_loop now records conn' (i + BATCH)
               (inserted + length (take BATCH (drop i records))))
      else Inr (conn, inserted))"
  by pat_completeness auto
termination
  by (relation "measure (\<lambda>(now, records, conn, i, inserted). length records - i)")
     (auto simp: BATCH_def)

declare upsert_loop.simps [simp del]

text \<open>
  Lines 188-239. \<open>with engine.begin() as conn\<close> encloses the whole loop: the
  transaction commits when the block ends normally and rolls back when an exception
  leaves it. The result is the value returned or the exception raised, together with
  the committed state of the table. \<open>now\<close> is the reading of \<open>NOW()\<close> in the
  transaction.
\<close>

definition upsert_to_postgres :: "dataframe \<Rightarrow> int \<Rightarrow> table \<Rightarrow> (error + nat) \<times> table" where
  "upsert_to_postgres df now engine =
     (if df_empty df then (Inr 0, engine)
      else (case upsert_loop now (to_records df) engine 0 0 of
              Inl e \<Rightarrow> (Inl e, engine)
            | Inr (conn, inserted) \<Rightarrow> (Inr inserted, conn)))"

text \<open>
  Lines 329-336 of \<open>main\<close> in the loader: extract, transform, load. \<open>now\<close> is the
  clock read by the window filter, \<open>now_db\<close> the clock of the warehouse.
\<close>

definition etl_main :: "config \<Rightarrow> s3fs \<Rightarrow> int \<Rightarrow> int \<Rightarrow> table \<Rightarrow> (error + nat) \<times> table" where
  "etl_main cfg fs now now_db engine =
     (case extract_from_s3 cfg fs now of
        Inl e \<Rightarrow> (Inl e, engine)
      | Inr raw_df \<Rightarrow>
          (case transform_to_daily raw_df of
             Inl e \<Rightarrow> (Inl e, engine)
           | Inr daily_df \<Rightarrow> upsert_to_postgres daily_df now_db engine))"

subsection \<open>The table read by key\<close>

text \<open>
  Three views of the rows used to state what a load leaves in the table: the row
  that a record becomes once it has been merged at time \<open>now\<close>, a row with its
  \<open>loaded_at\<close> replaced, and the row of the table under a key.
\<close>

definition stored :: "int \<Rightarrow> pydict \<Rightarrow> pydict" where
  "stored now rec = map (\<lambda>c. (c, if c = ''loaded_at'' then TS now else get_cell rec c)) WH_COLUMNS"


definition tbl_find :: "table \<Rightarrow> cell list \<Rightarrow> pydict option" where
  "tbl_find tbl k = find (\<lambda>r. conflict_key r = k) tbl"

section \<open>Collection side: metric catalog\<close>

record metric_def =
  metric :: string
  stats :: "string list"
  category :: string

definition EC2_STANDARD_METRICS :: "metric_def list" where
  "EC2_STANDARD_METRICS = [
     \<lparr> metric = ''CPUUtilization'', stats = [''Average'', ''Maximum'', ''Minimum''], category = ''CPU'' \<rparr>,
     \<lparr> metric = ''CPUCreditUsage'', stats = [''Sum'', ''Maximum'', ''Minimum''], category = ''CPU'' \<rparr>,
     \<lparr> metric = ''CPUCreditBalance'', stats = [''Average''], category = ''CPU'' \<rparr>,
     \<lparr> metric = ''CPUSurplusCreditBalance'', stats = [''Average''], category = ''CPU'' \<rparr>,
     \<lparr> metric = ''CPUSurplusCreditsCharged'', stats = [''Sum''], category = ''CPU'' \<rparr>,
     \<lparr> metric = ''DiskReadBytes'', stats = [''Sum'', ''Average''], category = ''Disk'' \<rparr>,
     \<lparr> metric = ''DiskWriteBytes'', stats = [''Sum'', ''Average''], category = ''Disk'' \<rparr>,
     \<lparr> metric = ''DiskReadOps'', stats = [''Sum'', ''Average''], category = ''Disk'' \<rparr>,
     \<lparr> metric = ''DiskWriteOps'', stats = [''Sum'', ''Average''], category = ''Disk'' \<rparr>,
     \<lparr> metric = ''NetworkIn'', stats = [''Sum'', ''Average''], category = ''Network'' \<rparr>,
     \<lparr> metric = ''NetworkOut'', stats = [''Sum'', ''Average''], category = ''Network'' \<rparr>,
     \<lparr> metric = ''NetworkPacketsIn'', stats = [''Sum'', ''Average''], category = ''Network'' \<rparr>,
     \<lparr> metric = ''NetworkPacketsOut'', stats = [''Sum'', ''Average''], category = ''Network'' \<rparr>,
     \<lparr> metric = ''StatusCheckFailed'', stats = [''Sum''], category = ''StatusCheck'' \<rparr>,
     \<lparr> metric = ''StatusCheckFailed_Instance'', stats = [''Sum''], category = ''StatusCheck'' \<rparr>,
     \<lparr> metric = ''StatusCheckFailed_System'', stats = [''Sum''], category = ''StatusCheck'' \<rparr>,
     \<lparr> metric = ''EBSReadBytes'', stats = [''Sum'', ''Average''], category = ''EBS'' \<rparr>,
     \<lparr> metric = ''EBSWriteBytes'', stats = [''Sum'', ''Average''], category = ''EBS'' \<rparr>,
     \<lparr> metric = ''EBSReadOps'', stats = [''Sum'', ''Average''], category = ''EBS'' \<rparr>,
     \<lparr> metric = ''EBSWriteOps'', stats = [''Sum'', ''Average''], category = ''EBS'' \<rparr>,
     \<lparr> metric = ''EBSIOBalance%'', stats = [''Average''], category = ''EBS'' \<rparr>,
     \<lparr> metric = ''EBSByteBalance%'', stats = [''Average''], category = ''EBS'' \<rparr> ]"

definition MEMORY_METRICS :: "metric_def list" where
  "MEMORY_METRICS = [
     \<lparr> metric = ''mem_used_percent'', stats = [''Average'', ''Maximum''], category = ''Memory'' \<rparr>,
     \<lparr> metric = ''mem_used'', stats = [''Average'', ''Maximum''], category = ''Memory'' \<rparr>,
     \<lparr> metric = ''mem_available'', stats = [''Average'', ''Minimum''], category = ''Memory'' \<rparr>,
     \<lparr> metric = ''mem_total'', stats = [''Average''], category = ''Memory'' \<rparr>,
     \<lparr> metric = ''mem_cached'', stats = [''Average''], category = ''Memory'' \<rparr>,
     \<lparr> metric = ''mem_buffered'', stats = [''Average''], category = ''Memory'' \<rparr> ]"

section \<open>Collection side: parallel extractor\<close>

text \<open>The metadata of one discovered instance (lines 173-183).\<close>

record instance_meta =
  instance_id :: string
  instance_name :: string
  instance_type :: string
  state :: string
  az :: string
  private_ip :: string
  public_ip :: string
  launch_time :: string
  platform :: string

text \<open>
  The keyword arguments of one \<open>get_metric_statistics\<close> call, and one datapoint of
  its response: the timestamp, the unit when there is one, the plain statistics by
  name, and the percentile statistics when the response carries them.
\<close>

record request =
  Namespace :: string
  MetricName :: string
  Dimensions :: "(string \<times> string) list"
  StartTime :: int
  EndTime :: int
  Period :: int
  Statistics :: "string list option"
  ExtendedStatistics :: "string list option"

record datapoint =
  dp_Timestamp :: int
  dp_Unit :: "string option"
  dp_values :: "(string \<times> rat) list"
  dp_ExtendedStatistics :: "(string \<times> rat) list option"

text \<open>
  The CloudWatch client: a call raises (\<open>Inl\<close> with the message of the exception) or
  returns a response, whose \<open>Datapoints\<close> entry may be absent.
\<close>

type_synonym cw_client = "request \<Rightarrow> string + datapoint list option"

definition startswith_p :: "string \<Rightarrow> bool" where
  "startswith_p s = (case s of [] \<Rightarrow> False | c # cs \<Rightarrow> c = CHR ''p'')"

definition lower_char :: "char \<Rightarrow> char" where
  "lower_char c =
     (if (65 :: nat) \<le> of_char c \<and> of_char c \<le> (90 :: nat)
      then char_of (of_char c + (32 :: nat)) else c)"

definition lower :: "string \<Rightarrow> string" where
  "lower s = map lower_char s"

definition stat_column :: "string \<Rightarrow> string" where
  "stat_column stat = ''stat_'' @ lower stat"

text \<open>Lines 206-220: the statistics split in two lists, and the one set of arguments.\<close>

definition request_args ::
  "string \<Rightarrow> (string \<times> string) list \<Rightarrow> metric_def \<Rightarrow> int \<Rightarrow> int \<Rightarrow> int \<Rightarrow> request" where
  "request_args namespace dimensions md start_time end_time period =
     (let standard = filter (\<lambda>s. \<not> startswith_p s) (stats md);
          extended = filter startswith_p (stats md)
      in \<lparr> Namespace = namespace, MetricName = metric md, Dimensions = dimensions,
           StartTime = start_time, EndTime = end_time, Period = period,
           Statistics = (if standard \<noteq> [] then Some standard else None),
           ExtendedStatistics = (if extended \<noteq> [] then Some extended else None) \<rparr>)"

definition opt_num :: "rat option \<Rightarrow> cell" where
  "opt_num v = (case v of None \<Rightarrow> Null | Some q \<Rightarrow> Num q)"

text \<open>Lines 235-248: the record built for one datapoint.\<close>

definition datapoint_row ::
  "string \<Rightarrow> (string \<times> string) list \<Rightarrow> metric_def \<Rightarrow> int \<Rightarrow> datapoint \<Rightarrow> pydict" where
  "datapoint_row namespace dimensions md period dp =
     (let standard = filter (\<lambda>s. \<not> startswith_p s) (stats md);
          extended = filter startswith_p (stats md);
          row = [(''namespace'', Str namespace),
                 (''instance_id'', Str (case map_of dimensions ''InstanceId'' of
                                          Some v \<Rightarrow> v | None \<Rightarrow> [])),
                 (''metric_name'', Str (metric md)),
                 (''category'', Str (category md)),
                 (''timestamp'', TS (dp_Timestamp dp)),
                 (''unit'', Str (case dp_Unit dp of Some u \<Rightarrow> u | None \<Rightarrow> ''None'')),
                 (''period_sec'', Num (of_int period))];
          row1 = fold (\<lambda>stat. AList.update (stat_column stat) (opt_num (map_of (dp_values dp) stat)))
                   standard row
      in fold (\<lambda>stat. AList.update (stat_column stat)
                  (opt_num (case dp_ExtendedStatistics dp of
                              None \<Rightarrow> None | Some ext \<Rightarrow> map_of ext stat)))
           extended row1)"

text \<open>
  Lines 192-250. The result is the list of records together with the requests that
  were sent upstream. An exception of the call is caught and gives no record.
\<close>

definition fetch_metric_datapoints ::
  "cw_client \<Rightarrow> string \<Rightarrow> (string \<times> string) list \<Rightarrow> metric_def \<Rightarrow> int \<Rightarrow> int \<Rightarrow> int
     \<Rightarrow> pydict list \<times> request list" where
  "fetch_metric_datapoints cw_client namespace dimensions md start_time end_time period =
     (let kwargs = request_args namespace dimensions md start_time end_time period
      in case cw_client kwargs of
           Inl e \<Rightarrow> ([], [kwargs])
         | Inr response \<Rightarrow>
             (map (datapoint_row namespace dimensions md period)
                (case response of None \<Rightarrow> [] | Some datapoints \<Rightarrow> datapoints),
              [kwargs]))"

text \<open>Lines 287-297: \<open>rec.update\<close> with the metadata of the instance.\<close>

definition merge_meta :: "instance_meta \<Rightarrow> pydict \<Rightarrow> pydict" where
  "merge_meta inst rec =
     fold (\<lambda>kv. AList.update (fst kv) (Str (snd kv)))
       [(''instance_name'', instance_name inst), (''instance_type'', instance_type inst),
        (''state'', state inst), (''az'', az inst), (''private_ip'', private_ip inst),
        (''public_ip'', public_ip inst), (''launch_time'', launch_time inst),
        (''platform'', platform inst)]
       rec"

text \<open>Lines 253-304: every cataloged metric of one instance, in the two namespaces.\<close>

definition fetch_instance_metrics ::
  "cw_client \<Rightarrow> instance_meta \<Rightarrow> string \<Rightarrow> int \<Rightarrow> int \<Rightarrow> int \<Rightarrow> pydict list \<times> request list" where
  "fetch_instance_metrics cw_client inst memory_namespace start_time end_time period =
     (let ec2_dims = [(''InstanceId'', instance_id inst)];
          mem_dims = [(''InstanceId'', instance_id inst)];
          fetched =
            map (\<lambda>md. fetch_metric_datapoints cw_client ''AWS/EC2'' ec2_dims md
                         start_time end_time period) EC2_STANDARD_METRICS @
            map (\<lambda>md. fetch_metric_datapoints cw_client memory_namespace mem_dims md
                         start_time end_time period) MEMORY_METRICS
      in (map (merge_meta inst) (concat (map fst fetched)), concat (map snd fetched)))"

section \<open>Collection side: schema normalizer (restructure_dataframe)\<close>

definition ordered_cols :: "string list" where
  "ordered_cols = [''extracted_at'', ''timestamp'',
     ''instance_id'', ''instance_name'', ''instance_type'', ''state'',
     ''az'', ''private_ip'', ''public_ip'', ''platform'', ''launch_time'',
     ''namespace'', ''category'', ''metric_name'', ''unit'', ''period_sec'',
     ''stat_average'', ''stat_maximum'', ''stat_minimum'', ''stat_sum'']"

definition SORT_COLS :: "string list" where
  "SORT_COLS = [''instance_id'', ''category'', ''metric_name'', ''timestamp'']"

text \<open>\<open>pd.DataFrame(records)\<close>: the columns are the keys in order of first appearance.\<close>

definition DataFrame :: "pydict list \<Rightarrow> dataframe" where
  "DataFrame records = \<lparr> columns = first_seen (concat (map (map fst) records)), rows = records \<rparr>"

text \<open>
  \<open>pd.to_datetime(..., utc=True)\<close> without coercion: a value pandas cannot read as an
  instant raises (\<open>None\<close>).
\<close>

fun to_datetime_strict :: "cell \<Rightarrow> cell option" where
  "to_datetime_strict (TS t) = Some (TS t)"
| "to_datetime_strict Null = Some Null"
| "to_datetime_strict _ = None"

text \<open>
  \<open>astype("int32")\<close>: a number is truncated and wraps around at 32 bits, a missing
  value raises.
\<close>

definition wrap_int32 :: "int \<Rightarrow> int" where
  "wrap_int32 n = (n + 2147483648) mod 4294967296 - 2147483648"

fun astype_int32 :: "cell \<Rightarrow> cell option" where
  "astype_int32 (Num q) = Some (Num (of_int (wrap_int32 (if q \<ge> 0 then \<lfloor>q\<rfloor> else \<lceil>q\<rceil>))))"
| "astype_int32 _ = None"

text \<open>\<open>pd.to_numeric(..., errors="coerce").astype("float64")\<close>.\<close>

fun to_numeric_coerce :: "cell \<Rightarrow> cell" where
  "to_numeric_coerce (Num q) = Num q"
| "to_numeric_coerce _ = Null"

definition or_null :: "cell option \<Rightarrow> cell" where
  "or_null v = (case v of Some c \<Rightarrow> c | None \<Rightarrow> Null)"

text \<open>\<open>df[cols]\<close>: the frame with exactly these columns, in this order.\<close>

definition select_columns :: "string list \<Rightarrow> dataframe \<Rightarrow> dataframe" where
  "select_columns cols df =
     \<lparr> columns = cols, rows = map (\<lambda>r. map (\<lambda>c. (c, get_cell r c)) cols) (rows df) \<rparr>"

text \<open>\<open>sort_values\<close>: the rows ordered by the key columns, missing values last.\<close>

fun insert_row :: "string list \<Rightarrow> pydict \<Rightarrow> pydict list \<Rightarrow> pydict list" where
  "insert_row ks r [] = [r]"
| "insert_row ks r (x # xs) =
     (if key_le (key_of ks r) (key_of ks x) then r # x # xs else x # insert_row ks r xs)"

definition sort_rows :: "string list \<Rightarrow> pydict list \<Rightarrow> pydict list" where
  "sort_rows ks rs = foldr (insert_row ks) rs []"

text \<open>
  Lines 353-419. \<open>now\<close> is the reading of the clock at line 388. \<open>df.insert\<close> raises
  when the column exists already, and selecting \<open>ordered_cols\<close> raises \<open>KeyError\<close>
  for the first of them that the frame does not have.
\<close>

definition restructure_dataframe :: "int \<Rightarrow> pydict list \<Rightarrow> error + dataframe" where
  "restructure_dataframe now records =
     (let df1 = fold ensure_column STAT_COLS (DataFrame records) in
      if ''extracted_at'' \<in> set (columns df1)
        then Inl (ValueError ''cannot insert extracted_at, already exists'')
      else
        let df2 = \<lparr> columns = ''extracted_at'' # columns df1,
                    rows = map (\<lambda>r. (''extracted_at'', TS now) # r) (rows df1) \<rparr>;
            extra_cols = filter (\<lambda>c. c \<notin> set ordered_cols) (columns df2)
        in case find (\<lambda>c. c \<notin> set (columns df2)) ordered_cols of
             Some c \<Rightarrow> Inl (KeyError c)
           | None \<Rightarrow>
               let df3 = select_columns (ordered_cols @ extra_cols) df2 in
               if list_ex (\<lambda>r. to_datetime_strict (get_cell r ''timestamp'') = None) (rows df3)
                 then Inl (ValueError ''timestamp'')
               else
                 let df4 = assign_column ''timestamp''
                             (\<lambda>r. or_null (to_datetime_strict (get_cell r ''timestamp''))) df3
                 in if list_ex (\<lambda>r. astype_int32 (get_cell r ''period_sec'') = None) (rows df4)
                      then Inl (ValueError ''period_sec'')
                    else
                      let df5 = assign_column ''period_sec''
                                  (\<lambda>r. or_null (astype_int32 (get_cell r ''period_sec''))) df4;
                          df6 = fold (\<lambda>c. assign_column c (\<lambda>r. to_numeric_coerce (get_cell r c)))
                                  (STAT_COLS @ extra_cols) df5
                      in Inr (df6 \<lparr> rows := sort_rows SORT_COLS (rows df6) \<rparr>))"

text \<open>
  Lines 310-347. The instances are fetched by a pool of workers and their records
  are collected as the workers finish; the model collects them in the order of the
  list. \<open>fetch_instance_metrics\<close> has no failing branch in this model (the response
  of CloudWatch is typed), so the \<open>except\<close> of line 340 is never taken.
  \<open>pd.DataFrame()\<close> is the frame with no column and no row.
\<close>

definition extract_all_ec2_metrics ::
  "cw_client \<Rightarrow> instance_meta list \<Rightarrow> string \<Rightarrow> int \<Rightarrow> int \<Rightarrow> int \<Rightarrow> int
     \<Rightarrow> (error + dataframe) \<times> request list" where
  "extract_all_ec2_metrics cw_client instances memory_namespace start_time end_time period now =
     (if instances = [] then (Inr \<lparr> columns = [], rows = [] \<rparr>, [])
      else
        let fetched = map (\<lambda>inst. fetch_instance_metrics cw_client inst memory_namespace
                                     start_time end_time period) instances;
            all_records = concat (map fst fetched)
        in if all_records = [] then (Inr \<lparr> columns = [], rows = [] \<rparr>, concat (map snd fetched))
           else (restructure_dataframe now all_records, concat (map snd fetched)))"

text \<open>
  The columns that every record of the extractor carries besides its statistics, and
  the shape the normalizer needs of a record: these columns, no \<open>extracted_at\<close>, an
  instant as timestamp and a number as period.
\<close>

definition BASE_COLS :: "string list" where
  "BASE_COLS = [''timestamp'',
     ''instance_id'', ''instance_name'', ''instance_type'', ''state'',
     ''az'', ''private_ip'', ''public_ip'', ''platform'', ''launch_time'',
     ''namespace'', ''category'', ''metric_name'', ''unit'', ''period_sec'']"

definition wf_record :: "pydict \<Rightarrow> bool" where
  "wf_record rec =
     (list_all (has_key rec) BASE_COLS \<and> \<not> has_key rec ''extracted_at'' \<and>
      (case get_cell rec ''timestamp'' of TS t \<Rightarrow> True | _ \<Rightarrow> False) \<and>
      (case get_cell rec ''period_sec'' of Num q \<Rightarrow> True | _ \<Rightarrow> False))"

text \<open>The columns that \<open>merge_meta\<close> writes.\<close>

definition META_COLS :: "string list" where
  "META_COLS = [''instance_name'', ''instance_type'', ''state'', ''az'', ''private_ip'',
                ''public_ip'', ''launch_time'', ''platform'']"


section \<open>Example inputs\<close>








text \<open>
  Two daily aggregates with one key, and the table after loading the first at time 1
  and then the second at time 2.
\<close>

definition agg_cols :: "string list" where
  "agg_cols = [''instance_id'', ''metric_name'', ''day_bucket'', ''stat_average'']"

definition agg20 :: pydict where
  "agg20 = [(''instance_id'', Str ''r-1''), (''metric_name'', Str ''CPUUtilization''),
            (''day_bucket'', Day 19723), (''stat_average'', Num 20)]"

definition agg25 :: pydict where
  "agg25 = [(''instance_id'', Str ''r-1''), (''metric_name'', Str ''CPUUtilization''),
            (''day_bucket'', Day 19723), (''stat_average'', Num 25)]"

definition wh_row :: "rat \<Rightarrow> int \<Rightarrow> pydict" where
  "wh_row avg t = [(''instance_id'', Str ''r-1''), (''instance_name'', Null),
     (''instance_type'', Null), (''metric_name'', Str ''CPUUtilization''),
     (''day_bucket'', Day 19723), (''category'', Null), (''unit'', Null), (''az'', Null),
     (''platform'', Null), (''stat_average'', Num avg), (''stat_maximum'', Null),
     (''stat_minimum'', Null), (''stat_sum'', Null), (''loaded_at'', TS t)]"




text \<open>
  Daily aggregates of one resource and metric, one for each day \<open>i\<close>, and two
  aggregates that share the key of day 5000.
\<close>

definition day_rec :: "nat \<Rightarrow> pydict" where
  "day_rec i = [(''instance_id'', Str ''r-1''), (''metric_name'', Str ''CPUUtilization''),
                (''day_bucket'', Day (int i)), (''stat_average'', Num 10)]"

definition clash_a :: pydict where
  "clash_a = [(''instance_id'', Str ''r-1''), (''metric_name'', Str ''CPUUtilization''),
              (''day_bucket'', Day 5000), (''stat_average'', Num 20)]"

definition clash_b :: pydict where
  "clash_b = [(''instance_id'', Str ''r-1''), (''metric_name'', Str ''CPUUtilization''),
              (''day_bucket'', Day 5000), (''stat_average'', Num 25)]"

definition good_then_bad :: dataframe where
  "good_then_bad = \<lparr> columns = agg_cols, rows = map day_rec [0..<1000] @ [clash_a, clash_b] \<rparr>"

definition bad_then_good :: dataframe where
  "bad_then_good = \<lparr> columns = agg_cols, rows = [clash_a, clash_b] @ map day_rec [0..<999] \<rparr>"

text \<open>
  Two instances and a CloudWatch client that throttles the CPU utilisation of the
  first instance, answers one datapoint for CPU utilisation and for inbound network
  traffic, and answers no datapoint for every other metric.
\<close>

definition web1 :: instance_meta where
  "web1 = \<lparr> instance_id = ''i-1'', instance_name = ''web'', instance_type = ''t3.medium'',
     state = ''running'', az = ''us-east-1a'', private_ip = ''10.0.0.1'', public_ip = '''',
     launch_time = ''2024-01-01T00:00:00+00:00'', platform = ''linux'' \<rparr>"

definition web2 :: instance_meta where
  "web2 = web1 \<lparr> instance_id := ''i-2'', instance_name := ''db'' \<rparr>"

definition noon_datapoint :: datapoint where
  "noon_datapoint = \<lparr> dp_Timestamp = 1704067200000000000, dp_Unit = Some ''Percent'',
                       dp_values = [(''Average'', 10), (''Sum'', 40)],
                       dp_ExtendedStatistics = None \<rparr>"

definition flaky_cw :: cw_client where
  "flaky_cw req =
     (if MetricName req = ''CPUUtilization'' \<and> Dimensions req = [(''InstanceId'', ''i-1'')]
        then Inl ''An error occurred (Throttling) when calling the GetMetricStatistics operation''
      else if MetricName req = ''CPUUtilization'' \<or> MetricName req = ''NetworkIn''
        then Inr (Some [noon_datapoint])
      else Inr (Some []))"

definition cpu_metric :: metric_def where
  "cpu_metric = \<lparr> metric = ''CPUUtilization'', stats = [''Average'', ''Maximum'', ''Minimum''],
                   category = ''CPU'' \<rparr>"

text \<open>
  The record of one CPU utilisation datapoint, for which CloudWatch returned the
  average, the maximum and the minimum, but no sum.
\<close>

definition cpu_record :: pydict where
  "cpu_record = [(''namespace'', Str ''AWS/EC2''), (''instance_id'', Str ''i-2''),
     (''metric_name'', Str ''CPUUtilization''), (''category'', Str ''CPU''),
     (''timestamp'', TS 1704067200000000000), (''unit'', Str ''Percent''),
     (''period_sec'', Num 60), (''stat_average'', Num 10), (''stat_maximum'', Num 12),
     (''stat_minimum'', Null),
     (''instance_name'', Str ''db''), (''instance_type'', Str ''t3.medium''),
     (''state'', Str ''running''), (''az'', Str ''us-east-1a''),
     (''private_ip'', Str ''10.0.0.1''), (''public_ip'', Str ''''),
     (''launch_time'', Str ''2024-01-01T00:00:00+00:00''), (''platform'', Str ''linux'')]"

definition cpu_normalized :: pydict where
  "cpu_normalized = [(''extracted_at'', TS 7), (''timestamp'', TS 1704067200000000000),
     (''instance_id'', Str ''i-2''), (''instance_name'', Str ''db''),
     (''instance_type'', Str ''t3.medium''), (''state'', Str ''running''),
     (''az'', Str ''us-east-1a''), (''private_ip'', Str ''10.0.0.1''), (''public_ip'', Str ''''),
     (''platform'', Str ''linux''), (''launch_time'', Str ''2024-01-01T00:00:00+00:00''),
     (''namespace'', Str ''AWS/EC2''), (''category'', Str ''CPU''),
     (''metric_name'', Str ''CPUUtilization''), (''unit'', Str ''Percent''),
     (''period_sec'', Num 60), (''stat_average'', Num 10), (''stat_maximum'', Num 12),
     (''stat_minimum'', Null), (''stat_sum'', Null)]"
section \<open>Properties of the daily aggregator\<close>

lemma get_cell_update: "get_cell (AList.update c v r) c' = (if c' = c then v else get_cell r c')"
  by (simp add: get_cell_def update_conv')

lemma get_cell_Cons: "get_cell ((k, v) # r) c = (if c = k then v else get_cell r c)"
  by (simp add: get_cell_def)


lemma get_cell_tabulate:
  "get_cell (map (\<lambda>c. (c, f c)) cs) c = (if c \<in> set cs then f c else Null)"
  by (induction cs) (auto simp: get_cell_Cons get_cell_def)







lemma columns_ensure: "set (columns (ensure_column c d)) = insert c (set (columns d))"
  by (auto simp: ensure_column_def assign_column_def)


lemma rows_fold_ensure:
  "r' \<in> set (rows (fold ensure_column cs d)) \<Longrightarrow>
   \<exists>r \<in> set (rows d). \<forall>c'. get_cell r' c' =
      (if c' \<in> set cs \<and> c' \<notin> set (columns d) then Null else get_cell r c')"
proof (induction cs arbitrary: d)
  case Nil
  then show ?case by auto
next
  case (Cons c cs)
  from Cons.IH[of "ensure_column c d"] Cons.prems
  obtain r1 where r1: "r1 \<in> set (rows (ensure_column c d))"
    and g1: "\<And>c'. get_cell r' c' =
      (if c' \<in> set cs \<and> c' \<notin> set (columns (ensure_column c d)) then Null else get_cell r1 c')"
    by auto
  from r1 obtain r where r: "r \<in> set (rows d)"
    and g: "\<And>c'. get_cell r1 c' = (if c' = c \<and> c \<notin> set (columns d) then Null else get_cell r c')"
    by (auto simp: ensure_column_def assign_column_def get_cell_update split: if_splits)
  show ?case
    by (rule bexI[OF _ r]) (auto simp: g1 g columns_ensure)
qed


































section \<open>Properties of the extraction-window selector\<close>

text \<open>
  Claim C10. When the listing under the bucket and prefix holds no Parquet file, the
  load-side extractor raises instead of returning an empty dataset, and the load run
  stops there: nothing is aggregated or written, the warehouse is as it was.
\<close>

theorem extract_from_s3_empty_listing:
  "extract_from_s3 cfg (fs \<lparr> listing := Some [] \<rparr>) now = Inl (ValueError ''No Parquet files found'') \<and>
   etl_main cfg (fs \<lparr> listing := Some [] \<rparr>) now now_db engine =
     (Inl (ValueError ''No Parquet files found''), engine)"
  by (simp add: extract_from_s3_def etl_main_def)





section \<open>Properties of the upsert loader\<close>

lemma get_cell_nokey: "\<not> has_key rec c \<Longrightarrow> get_cell rec c = Null"
  by (simp add: has_key_def get_cell_def map_of_eq_None_iff[THEN iffD2])

lemma get_cell_excluded:
  "c \<in> set WH_COLUMNS \<Longrightarrow> c \<noteq> ''loaded_at'' \<Longrightarrow> get_cell (excluded now rec) c = get_cell rec c"
  by (simp add: excluded_def get_cell_tabulate column_default_def get_cell_nokey)

lemma KEY_COLS_WH: "set KEY_COLS \<subseteq> set WH_COLUMNS" "''loaded_at'' \<notin> set KEY_COLS"
  by (simp_all add: KEY_COLS_def WH_COLUMNS_def)

lemma conflict_key_eqD:
  "conflict_key a = conflict_key b \<Longrightarrow> c \<in> set KEY_COLS \<Longrightarrow> get_cell a c = get_cell b c"
  by (auto simp: conflict_key_def key_of_def)

lemma conflict_key_cong:
  "(\<And>c. c \<in> set KEY_COLS \<Longrightarrow> get_cell a c = get_cell b c) \<Longrightarrow> conflict_key a = conflict_key b"
  by (simp add: conflict_key_def key_of_def)

lemma get_cell_stored:
  "get_cell (stored now rec) c =
     (if c \<in> set WH_COLUMNS then (if c = ''loaded_at'' then TS now else get_cell rec c) else Null)"
  by (simp add: stored_def get_cell_tabulate)

lemma do_update_stored:
  assumes "conflict_key old = conflict_key rec"
  shows "do_update now old rec = stored now rec"
  unfolding do_update_def stored_def
  using KEY_COLS_WH conflict_key_eqD[OF assms]
  by (intro map_cong refl) (auto simp: get_cell_excluded)

lemma conflict_key_stored: "conflict_key (stored now rec) = conflict_key rec"
  using KEY_COLS_WH by (intro conflict_key_cong) (auto simp: get_cell_stored)

lemma conflict_key_excluded: "conflict_key (excluded now rec) = conflict_key rec"
proof (rule conflict_key_cong)
  fix c assume "c \<in> set KEY_COLS"
  with KEY_COLS_WH have "c \<in> set WH_COLUMNS" "c \<noteq> ''loaded_at''" by auto
  then show "get_cell (excluded now rec) c = get_cell rec c" by (rule get_cell_excluded)
qed






lemma keys_upsert_row:
  "map conflict_key (upsert_row t T x) =
     (if conflict_key x \<in> set (map conflict_key T) then map conflict_key T
      else map conflict_key T @ [conflict_key x])"
  by (induction T) (auto simp: conflict_key_excluded do_update_stored conflict_key_stored)








lemma length_upsert_row:
  "length (upsert_row t T x) = length T + (if conflict_key x \<in> set (map conflict_key T) then 0 else 1)"
  using arg_cong[OF keys_upsert_row[of t T x], of length] by (simp split: if_splits)

lemma length_foldl_upsert:
  "distinct (map conflict_key xs) \<Longrightarrow>
   length (foldl (upsert_row t) T xs) =
     length T + length (filter (\<lambda>r. conflict_key r \<notin> set (map conflict_key T)) xs)"
proof (induction xs arbitrary: T)
  case Nil
  then show ?case by simp
next
  case (Cons x xs)
  then have d: "distinct (map conflict_key xs)" and nx: "conflict_key x \<notin> conflict_key ` set xs"
    by auto
  have "filter (\<lambda>r. conflict_key r \<notin> set (map conflict_key (upsert_row t T x))) xs =
        filter (\<lambda>r. conflict_key r \<notin> set (map conflict_key T)) xs"
    using nx by (intro filter_cong refl) (force simp: keys_upsert_row image_iff)
  with Cons.IH[OF d, of "upsert_row t T x"] show ?case
    by (simp add: length_upsert_row)
qed





lemma batch_error_None_distinct: "batch_error batch = None \<Longrightarrow> distinct (map conflict_key batch)"
  by (auto simp: batch_error_def split: if_splits)



lemma upsert_batch_eq:
  "upsert_batch now conn batch =
     (case batch_error batch of Some e \<Rightarrow> Inl e | None \<Rightarrow> Inr (foldl (upsert_row now) conn batch))"
  by (simp add: upsert_batch_def)



lemma upsert_loop_fails:
  "i + j * BATCH < length records \<Longrightarrow>
   batch_error (take BATCH (drop (i + j * BATCH) records)) = Some e \<Longrightarrow>
   (\<forall>j' < j. batch_error (take BATCH (drop (i + j' * BATCH) records)) = None) \<Longrightarrow>
   upsert_loop now records conn i ins = Inl e"
proof (induction j arbitrary: i conn ins)
  case 0
  then show ?case by (simp add: upsert_loop.simps[of _ records _ i] upsert_batch_eq)
next
  case (Suc j)
  from Suc.prems(3) have b0: "batch_error (take BATCH (drop i records)) = None"
    by (metis add.right_neutral mult_zero_left zero_less_Suc)
  have lt: "i < length records" using Suc.prems(1) by simp
  have a1: "(i + BATCH) + j * BATCH < length records" using Suc.prems(1) by (simp add: ac_simps)
  have a2: "batch_error (take BATCH (drop ((i + BATCH) + j * BATCH) records)) = Some e"
    using Suc.prems(2) by (simp add: ac_simps)
  have a3: "\<forall>j' < j. batch_error (take BATCH (drop ((i + BATCH) + j' * BATCH) records)) = None"
  proof (intro allI impI)
    fix j' assume "j' < j"
    then have "Suc j' < Suc j" by simp
    with Suc.prems(3) have "batch_error (take BATCH (drop (i + Suc j' * BATCH) records)) = None"
      by blast
    then show "batch_error (take BATCH (drop ((i + BATCH) + j' * BATCH) records)) = None"
      by (simp add: ac_simps)
  qed
  from Suc.IH[OF a1 a2 a3]
  show ?case using lt b0
    by (simp add: upsert_loop.simps[of _ records _ i] upsert_batch_eq)
qed






lemma agg_first_load: "upsert_to_postgres \<lparr> columns = agg_cols, rows = [agg20] \<rparr> 1 [] = (Inr 1, [wh_row 20 1])"
  by code_simp

lemma agg_second_load:
  "upsert_to_postgres \<lparr> columns = agg_cols, rows = [agg25] \<rparr> 2 [wh_row 20 1] = (Inr 1, [wh_row 25 2])"
  by code_simp



lemma to_records_id:
  "\<forall>r \<in> set rs. map fst r = cols \<and> distinct cols \<Longrightarrow>
   to_records \<lparr> columns = cols, rows = rs \<rparr> = rs"
proof -
  assume a: "\<forall>r \<in> set rs. map fst r = cols \<and> distinct cols"
  have "map (\<lambda>c. (c, get_cell r c)) (map fst r) = r" if d: "distinct (map fst r)" for r :: pydict
  proof -
    have "(fst kv, get_cell r (fst kv)) = kv" if "kv \<in> set r" for kv
    proof -
      from that have "(fst kv, snd kv) \<in> set r" by simp
      with d have "map_of r (fst kv) = Some (snd kv)" by (simp only: map_of_eq_Some_iff)
      then show ?thesis by (simp add: get_cell_def)
    qed
    then have "map (\<lambda>kv. (fst kv, get_cell r (fst kv))) r = r" by (intro map_idI)
    then show ?thesis by (simp add: comp_def)
  qed
  with a show ?thesis
    by (auto simp: to_records_def intro!: map_idI)
qed

lemma day_rec_keys: "map fst (day_rec i) = agg_cols" "map fst clash_a = agg_cols" "map fst clash_b = agg_cols"
  "distinct agg_cols"
  by (simp_all add: day_rec_def agg_cols_def clash_a_def clash_b_def)

lemma records_good_then_bad: "to_records good_then_bad = map day_rec [0..<1000] @ [clash_a, clash_b]"
  unfolding good_then_bad_def by (rule to_records_id) (auto simp: day_rec_keys)

lemma records_bad_then_good: "to_records bad_then_good = [clash_a, clash_b] @ map day_rec [0..<999]"
  unfolding bad_then_good_def by (rule to_records_id) (auto simp: day_rec_keys)

lemma conflict_key_day_rec: "conflict_key (day_rec i) = [Str ''r-1'', Str ''CPUUtilization'', Day (int i)]"
  by (simp add: conflict_key_def key_of_def KEY_COLS_def day_rec_def get_cell_def)

lemma agg_cols_WH: "set agg_cols \<subseteq> set WH_COLUMNS"
  by (simp add: agg_cols_def WH_COLUMNS_def)

lemma cols_ok: "map fst rec = agg_cols \<Longrightarrow> \<not> list_ex (\<lambda>c. c \<notin> set WH_COLUMNS) (map fst rec)"
  by (simp add: agg_cols_def WH_COLUMNS_def)

lemma cols_ok_all:
  "(\<And>rec. rec \<in> set xs \<Longrightarrow> map fst rec = agg_cols) \<Longrightarrow>
   \<not> list_ex (\<lambda>rec. list_ex (\<lambda>c. c \<notin> set WH_COLUMNS) (map fst rec)) xs"
proof (induction xs)
  case Nil
  then show ?case by simp
next
  case (Cons x xs)
  have "\<not> list_ex (\<lambda>c. c \<notin> set WH_COLUMNS) (map fst x)"
    by (rule cols_ok) (simp add: Cons.prems)
  moreover have "\<not> list_ex (\<lambda>rec. list_ex (\<lambda>c. c \<notin> set WH_COLUMNS) (map fst rec)) xs"
    by (rule Cons.IH) (simp add: Cons.prems)
  ultimately show ?case by simp
qed

lemma batch_error_days: "batch_error (map day_rec [m..<n]) = None"
proof -
  have "distinct (map conflict_key (map day_rec [m..<n]))"
    by (simp add: distinct_map comp_def conflict_key_day_rec inj_on_def)
  moreover have "\<not> list_ex (\<lambda>rec. list_ex (\<lambda>c. c \<notin> set WH_COLUMNS) (map fst rec)) (map day_rec [m..<n])"
    by (rule cols_ok_all) (auto simp: day_rec_keys)
  moreover have "\<not> list_ex (\<lambda>rec. Null \<in> set (conflict_key rec)) (map day_rec [m..<n])"
    by (auto simp: list_ex_iff conflict_key_day_rec)
  ultimately show ?thesis by (simp add: batch_error_def)
qed

lemma conflict_key_clash: "conflict_key clash_a = [Str ''r-1'', Str ''CPUUtilization'', Day 5000]"
  "conflict_key clash_b = [Str ''r-1'', Str ''CPUUtilization'', Day 5000]"
  by (simp_all add: conflict_key_def key_of_def KEY_COLS_def clash_a_def clash_b_def get_cell_def)

lemma batch_error_clash: "batch_error (clash_a # clash_b # map day_rec [m..<n]) = Some CardinalityViolation"
proof -
  have "\<not> list_ex (\<lambda>rec. list_ex (\<lambda>c. c \<notin> set WH_COLUMNS) (map fst rec)) (clash_a # clash_b # map day_rec [m..<n])"
    by (rule cols_ok_all) (auto simp: day_rec_keys)
  moreover have "\<not> list_ex (\<lambda>rec. Null \<in> set (conflict_key rec)) (clash_a # clash_b # map day_rec [m..<n])"
    by (auto simp: list_ex_iff conflict_key_day_rec conflict_key_clash)
  moreover have "\<not> distinct (map conflict_key (clash_a # clash_b # map day_rec [m..<n]))"
    by (simp add: conflict_key_clash)
  ultimately show ?thesis by (simp add: batch_error_def)
qed

lemma not_empty_examples: "\<not> df_empty good_then_bad" "\<not> df_empty bad_then_good"
  by (simp_all add: df_empty_def good_then_bad_def bad_then_good_def agg_cols_def)

lemma good_then_bad_second_batch:
  "take BATCH (drop (1 * BATCH) (to_records good_then_bad)) = clash_a # clash_b # map day_rec [0..<0]"
  by (simp add: records_good_then_bad BATCH_def)

lemma good_then_bad_first_batch:
  "take BATCH (drop (0 * BATCH) (to_records good_then_bad)) = map day_rec [0..<1000]"
  by (simp add: records_good_then_bad BATCH_def)

lemma bad_then_good_first_batch:
  "take BATCH (drop (0 * BATCH) (to_records bad_then_good)) = clash_a # clash_b # map day_rec [0..<998]"
  by (simp add: records_bad_then_good BATCH_def take_map)

text \<open>
  Claim C2, as the code has it. A failure while a batch is loaded is not recovered
  inside the loader: when the batch at offset \<open>j * BATCH\<close> is refused and the batches
  before it are accepted, \<open>upsert_to_postgres\<close> raises that error and returns no
  count, and neither the refused batch nor any later batch is written: under every
  key that only they carry, the warehouse holds after the run what it held before.
\<close>

theorem upsert_failure_aborts:
  assumes "\<not> df_empty df"
    and "j * BATCH < length (to_records df)"
    and "batch_error (take BATCH (drop (j * BATCH) (to_records df))) = Some e"
    and "\<forall>j' < j. batch_error (take BATCH (drop (j' * BATCH) (to_records df))) = None"
  shows "fst (upsert_to_postgres df now engine) = Inl e \<and>
         (\<forall>rec \<in> set (drop (j * BATCH) (to_records df)).
            conflict_key rec \<notin> conflict_key ` set (take (j * BATCH) (to_records df)) \<longrightarrow>
            tbl_find (snd (upsert_to_postgres df now engine)) (conflict_key rec) =
            tbl_find engine (conflict_key rec))"
proof -
  have "upsert_loop now (to_records df) engine 0 0 = Inl e"
    using upsert_loop_fails[of 0 j "to_records df" e now engine 0] assms(2-4) by simp
  with assms(1) show ?thesis by (simp add: upsert_to_postgres_def)
qed

theorem upsert_failure_aborts_witness:
  "\<not> df_empty good_then_bad \<and> 1 * BATCH < length (to_records good_then_bad) \<and>
   batch_error (take BATCH (drop (1 * BATCH) (to_records good_then_bad))) = Some CardinalityViolation \<and>
   batch_error (take BATCH (drop (0 * BATCH) (to_records good_then_bad))) = None \<and>
   fst (upsert_to_postgres good_then_bad 0 []) = Inl CardinalityViolation \<and>
   tbl_find (snd (upsert_to_postgres good_then_bad 0 [])) (conflict_key clash_a) = None"
proof -
  have a2: "1 * BATCH < length (to_records good_then_bad)"
    by (simp add: records_good_then_bad BATCH_def)
  have a3: "batch_error (take BATCH (drop (1 * BATCH) (to_records good_then_bad))) = Some CardinalityViolation"
    by (simp only: good_then_bad_second_batch batch_error_clash)
  have a4: "\<forall>j' < 1. batch_error (take BATCH (drop (j' * BATCH) (to_records good_then_bad))) = None"
    using good_then_bad_first_batch by (simp add: batch_error_days)
  have m: "clash_a \<in> set (drop (1 * BATCH) (to_records good_then_bad))"
    by (simp add: records_good_then_bad BATCH_def)
  have n: "conflict_key clash_a \<notin> conflict_key ` set (take (1 * BATCH) (to_records good_then_bad))"
    by (auto simp: records_good_then_bad BATCH_def conflict_key_clash conflict_key_day_rec)
  from upsert_failure_aborts[OF not_empty_examples(1) a2 a3 a4, of 0 "[]"] m n
  have "fst (upsert_to_postgres good_then_bad 0 []) = Inl CardinalityViolation"
    "tbl_find (snd (upsert_to_postgres good_then_bad 0 [])) (conflict_key clash_a) = tbl_find [] (conflict_key clash_a)"
    by blast+
  moreover have "batch_error (take BATCH (drop (0 * BATCH) (to_records good_then_bad))) = None"
    using a4 by blast
  ultimately show ?thesis
    using not_empty_examples(1) a2 a3 by (simp add: tbl_find_def)
qed


lemma first_batch_alone:
  "upsert_to_postgres \<lparr> columns = agg_cols, rows = map day_rec [0..<1000] \<rparr> 0 [] =
     (Inr 1000, foldl (upsert_row 0) [] (map day_rec [0..<1000]))"
proof -
  let ?recs = "map day_rec [0..<1000]"
  have r: "to_records \<lparr> columns = agg_cols, rows = ?recs \<rparr> = ?recs"
    by (rule to_records_id) (auto simp: day_rec_keys)
  have "upsert_loop 0 ?recs [] 0 0 = Inr (foldl (upsert_row 0) [] ?recs, 1000)"
    by (simp add: upsert_loop.simps[of _ _ _ 0] upsert_loop.simps[of _ _ _ 1000]
        BATCH_def upsert_batch_eq batch_error_days)
  moreover have "\<not> df_empty \<lparr> columns = agg_cols, rows = ?recs \<rparr>"
    by (simp add: df_empty_def agg_cols_def)
  ultimately show ?thesis
    unfolding upsert_to_postgres_def r by simp
qed

lemma first_batch_alone_length: "length (foldl (upsert_row 0) [] (map day_rec [0..<1000])) = 1000"
proof -
  have "distinct (map conflict_key (map day_rec [0..<1000]))"
    using batch_error_days[of 0 1000] by (rule batch_error_None_distinct)
  from length_foldl_upsert[OF this, of 0 "[]"] show ?thesis by simp
qed

lemma last_batch_alone:
  "upsert_to_postgres \<lparr> columns = agg_cols, rows = [day_rec 998] \<rparr> 0 [] = (Inr 1, [excluded 0 (day_rec 998)])"
proof -
  have r: "to_records \<lparr> columns = agg_cols, rows = [day_rec 998] \<rparr> = [day_rec 998]"
    by (rule to_records_id) (auto simp: day_rec_keys)
  have "upsert_loop 0 [day_rec 998] [] 0 0 = Inr ([excluded 0 (day_rec 998)], 1)"
    using batch_error_days[of 998 999]
    by (simp add: upsert_loop.simps[of _ _ _ 0] upsert_loop.simps[of _ _ _ 1000]
        BATCH_def upsert_batch_eq)
  moreover have "\<not> df_empty \<lparr> columns = agg_cols, rows = [day_rec 998] \<rparr>"
    by (simp add: df_empty_def agg_cols_def)
  ultimately show ?thesis
    unfolding upsert_to_postgres_def r by simp
qed

text \<open>
  Claim C2 as stated fails. With 1000 loadable aggregates followed by two that share
  a key, the second batch is refused and the table is empty after the run, although
  the first batch alone loads 1000 rows: the transaction is the whole run, not the
  batch. With the two clashing aggregates first, the first batch is refused and the
  aggregate of the second batch, which alone loads, is never written.
\<close>

theorem upsert_batches_one_transaction_counterexample:
  "upsert_to_postgres good_then_bad 0 [] = (Inl CardinalityViolation, []) \<and>
   fst (upsert_to_postgres \<lparr> columns = agg_cols, rows = map day_rec [0..<1000] \<rparr> 0 []) = Inr 1000 \<and>
   length (snd (upsert_to_postgres \<lparr> columns = agg_cols, rows = map day_rec [0..<1000] \<rparr> 0 [])) = 1000 \<and>
   upsert_to_postgres bad_then_good 0 [] = (Inl CardinalityViolation, []) \<and>
   upsert_to_postgres \<lparr> columns = agg_cols, rows = [day_rec 998] \<rparr> 0 [] =
     (Inr 1, [excluded 0 (day_rec 998)])"
proof -
  have g: "upsert_loop 0 (to_records good_then_bad) [] 0 0 = Inl CardinalityViolation"
  proof (rule upsert_loop_fails[of 0 1])
    show "0 + 1 * BATCH < length (to_records good_then_bad)"
      by (simp add: records_good_then_bad BATCH_def)
    show "batch_error (take BATCH (drop (0 + 1 * BATCH) (to_records good_then_bad))) = Some CardinalityViolation"
      using good_then_bad_second_batch batch_error_clash[of 0 0] by simp
    show "\<forall>j'<1. batch_error (take BATCH (drop (0 + j' * BATCH) (to_records good_then_bad))) = None"
      using good_then_bad_first_batch by (simp add: batch_error_days)
  qed
  have b: "upsert_loop 0 (to_records bad_then_good) [] 0 0 = Inl CardinalityViolation"
  proof (rule upsert_loop_fails[of 0 0])
    show "0 + 0 * BATCH < length (to_records bad_then_good)"
      by (simp add: records_bad_then_good)
    show "batch_error (take BATCH (drop (0 + 0 * BATCH) (to_records bad_then_good))) = Some CardinalityViolation"
      using bad_then_good_first_batch batch_error_clash[of 0 998] by simp
    show "\<forall>j'<0. batch_error (take BATCH (drop (0 + j' * BATCH) (to_records bad_then_good))) = None"
      by simp
  qed
  have gb: "upsert_to_postgres good_then_bad 0 [] = (Inl CardinalityViolation, [])"
    using g not_empty_examples(1) by (simp add: upsert_to_postgres_def)
  have bg: "upsert_to_postgres bad_then_good 0 [] = (Inl CardinalityViolation, [])"
    using b not_empty_examples(2) by (simp add: upsert_to_postgres_def)
  show ?thesis
    by (simp only: gb bg first_batch_alone first_batch_alone_length last_batch_alone
        fst_conv snd_conv simp_thms)
qed









section \<open>Properties of the extractor and of the normalizer\<close>

text \<open>
  Claim C8, as the code has it. The statistics of a metric are split in two lists,
  the names that do not start with \<open>p\<close> and the names that do, and the fetch of one
  (resource, metric) sends exactly one upstream request, which carries each list
  that is not empty as its own parameter.
\<close>

theorem fetch_metric_single_request:
  "snd (fetch_metric_datapoints cw_client namespace dimensions md start_time end_time period) =
     [request_args namespace dimensions md start_time end_time period] \<and>
   Statistics (request_args namespace dimensions md start_time end_time period) =
     (if filter (\<lambda>s. \<not> startswith_p s) (stats md) = [] then None
      else Some (filter (\<lambda>s. \<not> startswith_p s) (stats md))) \<and>
   ExtendedStatistics (request_args namespace dimensions md start_time end_time period) =
     (if filter startswith_p (stats md) = [] then None
      else Some (filter startswith_p (stats md)))"
  by (simp add: fetch_metric_datapoints_def request_args_def Let_def split: sum.splits)

text \<open>
  Claim C8 as stated fails: a metric that asks for \<open>Average\<close> and \<open>p95\<close> is fetched
  with one request, not two.
\<close>

theorem fetch_metric_two_requests_counterexample:
  "snd (fetch_metric_datapoints flaky_cw ''AWS/EC2'' [(''InstanceId'', ''i-2'')]
          \<lparr> metric = ''CPUUtilization'', stats = [''Average'', ''p95''], category = ''CPU'' \<rparr>
          0 100 60) =
     [\<lparr> Namespace = ''AWS/EC2'', MetricName = ''CPUUtilization'',
        Dimensions = [(''InstanceId'', ''i-2'')], StartTime = 0, EndTime = 100, Period = 60,
        Statistics = Some [''Average''], ExtendedStatistics = Some [''p95''] \<rparr>] \<and>
   length (snd (fetch_metric_datapoints flaky_cw ''AWS/EC2'' [(''InstanceId'', ''i-2'')]
          \<lparr> metric = ''CPUUtilization'', stats = [''Average'', ''p95''], category = ''CPU'' \<rparr>
          0 100 60)) = 1"
  by code_simp

lemma set_first_seen: "set (first_seen xs) = set xs"
  by (simp add: first_seen_def)

lemma distinct_first_seen: "distinct (first_seen xs)"
  by (simp add: first_seen_def)

lemma get_cell_not_column:
  "c \<notin> set (columns (DataFrame records)) \<Longrightarrow> rec \<in> set records \<Longrightarrow> get_cell rec c = Null"
  by (rule get_cell_nokey) (auto simp: DataFrame_def set_first_seen has_key_def)

lemma columns_fold_ensure: "set (columns (fold ensure_column cs d)) = set cs \<union> set (columns d)"
  by (induction cs arbitrary: d) (auto simp: columns_ensure)

lemma set_insert_row: "set (insert_row ks r xs) = insert r (set xs)"
  by (induction xs) auto

lemma set_sort_rows: "set (sort_rows ks rs) = set rs"
  by (induction rs) (auto simp: sort_rows_def set_insert_row)

lemma rows_assign_column: "rows (assign_column c f df) = map (\<lambda>r. AList.update c (f r) r) (rows df)"
  by (simp add: assign_column_def)

lemma columns_assign_column: "c \<in> set (columns df) \<Longrightarrow> columns (assign_column c f df) = columns df"
  by (simp add: assign_column_def)

lemma keys_update_in: "c \<in> set (map fst r) \<Longrightarrow> map fst (AList.update c v r) = map fst r"
  by (simp add: update_keys)

lemma to_numeric_idem: "to_numeric_coerce (to_numeric_coerce x) = to_numeric_coerce x"
  by (cases x) simp_all

lemma fold_assign_numeric:
  assumes "set cs \<subseteq> set (columns d)" "\<forall>r \<in> set (rows d). map fst r = columns d"
    and "r \<in> set (rows (fold (\<lambda>c. assign_column c (\<lambda>r. to_numeric_coerce (get_cell r c))) cs d))"
  shows "map fst r = columns d \<and>
         (\<exists>r0 \<in> set (rows d). \<forall>c. get_cell r c =
            (if c \<in> set cs then to_numeric_coerce (get_cell r0 c) else get_cell r0 c))"
  using assms
proof (induction cs arbitrary: d)
  case Nil
  then show ?case by auto
next
  case (Cons a cs)
  let ?d' = "assign_column a (\<lambda>r. to_numeric_coerce (get_cell r a)) d"
  have a: "a \<in> set (columns d)" using Cons.prems(1) by simp
  have cols: "columns ?d' = columns d" by (rule columns_assign_column[OF a])
  have uni: "\<forall>r \<in> set (rows ?d'). map fst r = columns ?d'"
    using Cons.prems(2) a by (auto simp: rows_assign_column cols keys_update_in)
  have sub: "set cs \<subseteq> set (columns ?d')" using Cons.prems(1) by (simp add: cols)
  from Cons.prems(3) have "r \<in> set (rows (fold (\<lambda>c. assign_column c (\<lambda>r. to_numeric_coerce (get_cell r c))) cs ?d'))"
    by simp
  from Cons.IH[OF sub uni this]
  obtain r1 where k: "map fst r = columns ?d'" and r1: "r1 \<in> set (rows ?d')"
    and g1: "\<And>c. get_cell r c = (if c \<in> set cs then to_numeric_coerce (get_cell r1 c) else get_cell r1 c)"
    by blast
  from r1 obtain r0 where r0: "r0 \<in> set (rows d)"
    and r1eq: "r1 = AList.update a (to_numeric_coerce (get_cell r0 a)) r0"
    by (auto simp: rows_assign_column)
  have "\<forall>c. get_cell r c =
      (if c \<in> set (a # cs) then to_numeric_coerce (get_cell r0 c) else get_cell r0 c)"
    by (auto simp: g1 r1eq get_cell_update to_numeric_idem)
  with k r0 cols show ?case by auto
qed


lemma restructure_dataframe_Inr:
  assumes "restructure_dataframe now records = Inr df"
  defines "df1 \<equiv> fold ensure_column STAT_COLS (DataFrame records)"
  defines "df2 \<equiv> \<lparr> columns = ''extracted_at'' # columns df1,
                    rows = map (\<lambda>r. (''extracted_at'', TS now) # r) (rows df1) \<rparr>"
  defines "extra_cols \<equiv> filter (\<lambda>c. c \<notin> set ordered_cols) (columns df2)"
  defines "df3 \<equiv> select_columns (ordered_cols @ extra_cols) df2"
  defines "df4 \<equiv> assign_column ''timestamp''
                    (\<lambda>r. or_null (to_datetime_strict (get_cell r ''timestamp''))) df3"
  defines "df5 \<equiv> assign_column ''period_sec''
                    (\<lambda>r. or_null (astype_int32 (get_cell r ''period_sec''))) df4"
  defines "df6 \<equiv> fold (\<lambda>c. assign_column c (\<lambda>r. to_numeric_coerce (get_cell r c)))
                    (STAT_COLS @ extra_cols) df5"
  shows "df = df6 \<lparr> rows := sort_rows SORT_COLS (rows df6) \<rparr>"
    and "''extracted_at'' \<notin> set (columns df1)"
    and "find (\<lambda>c. c \<notin> set (columns df2)) ordered_cols = None"
proof -
  have eq: "restructure_dataframe now records =
     (if ''extracted_at'' \<in> set (columns df1)
        then Inl (ValueError ''cannot insert extracted_at, already exists'')
      else case find (\<lambda>c. c \<notin> set (columns df2)) ordered_cols of
             Some c \<Rightarrow> Inl (KeyError c)
           | None \<Rightarrow>
               if list_ex (\<lambda>r. to_datetime_strict (get_cell r ''timestamp'') = None) (rows df3)
                 then Inl (ValueError ''timestamp'')
               else if list_ex (\<lambda>r. astype_int32 (get_cell r ''period_sec'') = None) (rows df4)
                      then Inl (ValueError ''period_sec'')
                    else Inr (df6 \<lparr> rows := sort_rows SORT_COLS (rows df6) \<rparr>))"
    unfolding restructure_dataframe_def Let_def df1_def df2_def extra_cols_def df3_def df4_def
      df5_def df6_def ..
  from assms(1)[unfolded eq]
  show "df = df6 \<lparr> rows := sort_rows SORT_COLS (rows df6) \<rparr>"
    and "''extracted_at'' \<notin> set (columns df1)"
    and "find (\<lambda>c. c \<notin> set (columns df2)) ordered_cols = None"
    by (auto split: if_splits option.splits)
qed

lemma STAT_COLS_ordered: "set STAT_COLS \<subseteq> set ordered_cols"
  by (simp add: STAT_COLS_def ordered_cols_def)

lemma extracted_at_not_stat: "''extracted_at'' \<notin> set STAT_COLS"
  by (simp add: STAT_COLS_def)

text \<open>
  Claim C5. Whenever the normalizer returns a frame, the frame has the four
  statistic columns among its twenty fixed leading columns, every row carries
  exactly the columns of the frame, and every row comes from a record whose
  statistics it holds as numbers, with null for each statistic that the record does
  not have.
\<close>

theorem restructure_dataframe_stat_columns:
  assumes ok: "restructure_dataframe now records = Inr df"
    and row: "row \<in> set (rows df)"
  shows "set STAT_COLS \<subseteq> set (columns df) \<and>
         take (length ordered_cols) (columns df) = ordered_cols \<and>
         map fst row = columns df \<and>
         (\<exists>rec \<in> set records. \<forall>c \<in> set STAT_COLS.
            get_cell row c = to_numeric_coerce (get_cell rec c) \<and>
            (\<not> has_key rec c \<longrightarrow> get_cell row c = Null))"
proof -
  define df1 where "df1 = fold ensure_column STAT_COLS (DataFrame records)"
  define df2 where "df2 = \<lparr> columns = ''extracted_at'' # columns df1,
                    rows = map (\<lambda>r. (''extracted_at'', TS now) # r) (rows df1) \<rparr>"
  define extra_cols where "extra_cols = filter (\<lambda>c. c \<notin> set ordered_cols) (columns df2)"
  define cols where "cols = ordered_cols @ extra_cols"
  define df3 where "df3 = select_columns cols df2"
  define df4 where "df4 = assign_column ''timestamp''
                    (\<lambda>r. or_null (to_datetime_strict (get_cell r ''timestamp''))) df3"
  define df5 where "df5 = assign_column ''period_sec''
                    (\<lambda>r. or_null (astype_int32 (get_cell r ''period_sec''))) df4"
  define df6 where "df6 = fold (\<lambda>c. assign_column c (\<lambda>r. to_numeric_coerce (get_cell r c)))
                    (STAT_COLS @ extra_cols) df5"
  note defs = df1_def df2_def extra_cols_def cols_def df3_def df4_def df5_def df6_def
  from restructure_dataframe_Inr[OF ok]
  have df: "df = df6 \<lparr> rows := sort_rows SORT_COLS (rows df6) \<rparr>"
    unfolding defs by blast
  have ts: "''timestamp'' \<in> set cols" "''period_sec'' \<in> set cols"
    by (simp_all add: cols_def ordered_cols_def)
  have c3: "columns df3 = cols" by (simp add: df3_def select_columns_def)
  have c4: "columns df4 = cols" unfolding df4_def using ts c3 by (simp add: columns_assign_column)
  have c5: "columns df5 = cols" unfolding df5_def using ts c4 by (simp add: columns_assign_column)
  have u3: "\<forall>r \<in> set (rows df3). map fst r = cols"
    by (auto simp: df3_def select_columns_def comp_def)
  have u4: "\<forall>r \<in> set (rows df4). map fst r = cols"
    unfolding df4_def using u3 ts by (auto simp: rows_assign_column keys_update_in)
  have u5: "\<forall>r \<in> set (rows df5). map fst r = cols"
    unfolding df5_def using u4 ts by (auto simp: rows_assign_column keys_update_in)
  have sub: "set (STAT_COLS @ extra_cols) \<subseteq> set (columns df5)"
    using STAT_COLS_ordered by (auto simp: c5 cols_def)
  from row have r6: "row \<in> set (rows df6)" by (simp add: df set_sort_rows)
  from fold_assign_numeric[OF sub _ r6[unfolded df6_def]] u5 c5
  obtain r5 where k: "map fst row = cols" and r5: "r5 \<in> set (rows df5)"
    and g5: "\<And>c. get_cell row c =
       (if c \<in> set (STAT_COLS @ extra_cols) then to_numeric_coerce (get_cell r5 c) else get_cell r5 c)"
    by auto
  have c6: "columns df6 = cols"
  proof -
    have "set cs \<subseteq> set (columns d) \<Longrightarrow>
      columns (fold (\<lambda>c. assign_column c (\<lambda>r. to_numeric_coerce (get_cell r c))) cs d) = columns d"
      for cs d
      by (induction cs arbitrary: d) (auto simp: columns_assign_column)
    from this[OF sub] show ?thesis by (simp add: df6_def c5)
  qed
  have ns: "''timestamp'' \<notin> set STAT_COLS" "''period_sec'' \<notin> set STAT_COLS"
    by (simp_all add: STAT_COLS_def)
  from r5 obtain r4 where r4: "r4 \<in> set (rows df4)"
    and e5: "r5 = AList.update ''period_sec'' (or_null (astype_int32 (get_cell r4 ''period_sec''))) r4"
    by (auto simp: df5_def rows_assign_column)
  have g4: "get_cell r5 c = get_cell r4 c" if "c \<in> set STAT_COLS" for c
    using that ns by (auto simp: e5 get_cell_update)
  from r4 obtain r3 where r3: "r3 \<in> set (rows df3)"
    and e4: "r4 = AList.update ''timestamp'' (or_null (to_datetime_strict (get_cell r3 ''timestamp''))) r3"
    by (auto simp: df4_def rows_assign_column)
  have g3: "get_cell r4 c = get_cell r3 c" if "c \<in> set STAT_COLS" for c
    using that ns by (auto simp: e4 get_cell_update)
  from r3 obtain r2 where r2: "r2 \<in> set (rows df2)"
    and e3: "r3 = map (\<lambda>c. (c, get_cell r2 c)) cols"
    by (auto simp: df3_def select_columns_def)
  have g2: "get_cell r3 c = get_cell r2 c" if "c \<in> set STAT_COLS" for c
  proof -
    from that STAT_COLS_ordered have "c \<in> set cols" by (auto simp: cols_def)
    then show ?thesis unfolding e3 by (simp only: get_cell_tabulate if_True)
  qed
  from r2 obtain r1 where r1: "r1 \<in> set (rows df1)"
    and e2: "r2 = (''extracted_at'', TS now) # r1"
    by (auto simp: df2_def)
  have g1: "get_cell r2 c = get_cell r1 c" if "c \<in> set STAT_COLS" for c
    using that extracted_at_not_stat by (auto simp: e2 get_cell_Cons)
  from rows_fold_ensure[OF r1[unfolded df1_def]]
  obtain rec where rec0: "rec \<in> set (rows (DataFrame records))"
    and g0: "\<And>c. get_cell r1 c =
      (if c \<in> set STAT_COLS \<and> c \<notin> set (columns (DataFrame records)) then Null else get_cell rec c)"
    by blast
  from rec0 have rec: "rec \<in> set records" by (simp add: DataFrame_def)
  have g0': "get_cell r1 c = get_cell rec c" for c
    using g0[of c] get_cell_not_column[OF _ rec, of c] by auto
  have val: "get_cell row c = to_numeric_coerce (get_cell rec c)" if "c \<in> set STAT_COLS" for c
    using that by (simp add: g5 g4 g3 g2 g1 g0')
  have nul: "get_cell row c = Null" if "c \<in> set STAT_COLS" "\<not> has_key rec c" for c
    using val[OF that(1)] get_cell_nokey[OF that(2)] by simp
  have cdf: "columns df = cols" by (simp add: df c6)
  have "set STAT_COLS \<subseteq> set (columns df)"
    using STAT_COLS_ordered by (auto simp: cdf cols_def)
  moreover have "take (length ordered_cols) (columns df) = ordered_cols"
    by (simp add: cdf cols_def)
  moreover have "map fst row = columns df" by (simp add: k cdf)
  ultimately show ?thesis using rec val nul by blast
qed

lemma cpu_record_normalized:
  "restructure_dataframe 7 [cpu_record] = Inr \<lparr> columns = ordered_cols, rows = [cpu_normalized] \<rparr>"
  by code_simp

theorem restructure_dataframe_stat_columns_witness:
  "restructure_dataframe 7 [cpu_record] = Inr \<lparr> columns = ordered_cols, rows = [cpu_normalized] \<rparr> \<and>
   cpu_normalized \<in> set (rows \<lparr> columns = ordered_cols, rows = [cpu_normalized] \<rparr>) \<and>
   \<not> has_key cpu_record ''stat_sum'' \<and>
   map fst cpu_normalized = ordered_cols \<and>
   get_cell cpu_normalized ''stat_sum'' = Null \<and>
   get_cell cpu_normalized ''stat_average'' = Num 10"
proof -
  have m: "cpu_normalized \<in> set (rows \<lparr> columns = ordered_cols, rows = [cpu_normalized] \<rparr>)"
    by simp
  have nk: "\<not> has_key cpu_record ''stat_sum''" by code_simp
  have av: "to_numeric_coerce (get_cell cpu_record ''stat_average'') = Num 10" by code_simp
  have s: "''stat_sum'' \<in> set STAT_COLS" "''stat_average'' \<in> set STAT_COLS"
    by (simp_all add: STAT_COLS_def)
  from restructure_dataframe_stat_columns[OF cpu_record_normalized m] s nk av
  have "map fst cpu_normalized = ordered_cols"
    "get_cell cpu_normalized ''stat_sum'' = Null"
    "get_cell cpu_normalized ''stat_average'' = Num 10"
    by auto
  with cpu_record_normalized m nk show ?thesis by blast
qed

section \<open>Failure isolation in the extractor\<close>

lemma restructure_dataframe_unfold:
  assumes "df1 = fold ensure_column STAT_COLS (DataFrame records)"
    and "df2 = \<lparr> columns = ''extracted_at'' # columns df1,
                    rows = map (\<lambda>r. (''extracted_at'', TS now) # r) (rows df1) \<rparr>"
    and "extra_cols = filter (\<lambda>c. c \<notin> set ordered_cols) (columns df2)"
    and "df3 = select_columns (ordered_cols @ extra_cols) df2"
    and "df4 = assign_column ''timestamp''
                    (\<lambda>r. or_null (to_datetime_strict (get_cell r ''timestamp''))) df3"
    and "df5 = assign_column ''period_sec''
                    (\<lambda>r. or_null (astype_int32 (get_cell r ''period_sec''))) df4"
    and "df6 = fold (\<lambda>c. assign_column c (\<lambda>r. to_numeric_coerce (get_cell r c)))
                    (STAT_COLS @ extra_cols) df5"
  shows "restructure_dataframe now records =
     (if ''extracted_at'' \<in> set (columns df1)
        then Inl (ValueError ''cannot insert extracted_at, already exists'')
      else case find (\<lambda>c. c \<notin> set (columns df2)) ordered_cols of
             Some c \<Rightarrow> Inl (KeyError c)
           | None \<Rightarrow>
               if list_ex (\<lambda>r. to_datetime_strict (get_cell r ''timestamp'') = None) (rows df3)
                 then Inl (ValueError ''timestamp'')
               else if list_ex (\<lambda>r. astype_int32 (get_cell r ''period_sec'') = None) (rows df4)
                      then Inl (ValueError ''period_sec'')
                    else Inr (df6 \<lparr> rows := sort_rows SORT_COLS (rows df6) \<rparr>))"
  unfolding assms restructure_dataframe_def Let_def ..

lemma rows_fold_ensure_map:
  "distinct cs \<Longrightarrow>
   rows (fold ensure_column cs d) =
     map (fold (\<lambda>c r. if c \<in> set (columns d) then r else AList.update c Null r) cs) (rows d)"
proof (induction cs arbitrary: d)
  case Nil
  then show ?case by simp
next
  case (Cons c cs)
  then have d: "distinct cs" and nc: "c \<notin> set cs" by auto
  show ?case
  proof (cases "c \<in> set (columns d)")
    case True
    then have "ensure_column c d = d" by (simp add: ensure_column_def)
    with Cons.IH[OF d, of d] True show ?thesis by simp
  next
    case False
    let ?d' = "ensure_column c d"
    have cols: "set (columns ?d') = insert c (set (columns d))" by (rule columns_ensure)
    have rws: "rows ?d' = map (AList.update c Null) (rows d)"
      using False by (simp add: ensure_column_def assign_column_def)
    have "fold (\<lambda>c' r. if c' \<in> set (columns ?d') then r else AList.update c' Null r) cs =
          fold (\<lambda>c' r. if c' \<in> set (columns d) then r else AList.update c' Null r) cs"
    proof (rule ext)
      fix r
      show "fold (\<lambda>c' r. if c' \<in> set (columns ?d') then r else AList.update c' Null r) cs r =
            fold (\<lambda>c' r. if c' \<in> set (columns d) then r else AList.update c' Null r) cs r"
        using nc by (intro fold_cong refl) (auto simp: cols fun_eq_iff)
    qed
    with Cons.IH[OF d, of ?d'] False show ?thesis by (simp add: rws comp_def)
  qed
qed

lemma get_cell_fill:
  "get_cell (fold (\<lambda>c r. if c \<in> C then r else AList.update c Null r) cs r) c' =
     (if c' \<in> set cs \<and> c' \<notin> C then Null else get_cell r c')"
  by (induction cs arbitrary: r) (auto simp: get_cell_update)

lemma rows_fold_assign:
  "rows (fold (\<lambda>c. assign_column c (\<lambda>r. g (get_cell r c))) cs d) =
     map (fold (\<lambda>c r. AList.update c (g (get_cell r c)) r) cs) (rows d)"
  by (induction cs arbitrary: d) (auto simp: rows_assign_column comp_def)

lemma get_cell_fold_numeric:
  "get_cell (fold (\<lambda>c r. AList.update c (to_numeric_coerce (get_cell r c)) r) cs r) c' =
     (if c' \<in> set cs then to_numeric_coerce (get_cell r c') else get_cell r c')"
  by (induction cs arbitrary: r) (auto simp: get_cell_update to_numeric_idem)

lemma ordered_cols_eq: "ordered_cols = ''extracted_at'' # BASE_COLS @ STAT_COLS"
  by (simp add: ordered_cols_def BASE_COLS_def STAT_COLS_def)

lemma distinct_STAT_COLS: "distinct STAT_COLS"
  by (simp add: STAT_COLS_def)

lemma wf_recordD:
  assumes "wf_record rec"
  shows "\<And>c. c \<in> set BASE_COLS \<Longrightarrow> has_key rec c" "\<not> has_key rec ''extracted_at''"
    "\<exists>t. get_cell rec ''timestamp'' = TS t" "\<exists>q. get_cell rec ''period_sec'' = Num q"
  using assms by (auto simp: wf_record_def list_all_iff split: cell.splits)

lemma restructure_wf:
  assumes ne: "records \<noteq> []" and wf: "\<forall>rec \<in> set records. wf_record rec"
  shows "\<exists>df. restructure_dataframe now records = Inr df \<and>
           (\<forall>rec \<in> set records. \<exists>row \<in> set (rows df).
              \<forall>c \<in> set [''instance_id'', ''namespace'', ''metric_name'', ''timestamp''].
                get_cell row c = get_cell rec c)"
proof -
  define cols0 where "cols0 = columns (DataFrame records)"
  define df1 where "df1 = fold ensure_column STAT_COLS (DataFrame records)"
  define df2 where "df2 = \<lparr> columns = ''extracted_at'' # columns df1,
                    rows = map (\<lambda>r. (''extracted_at'', TS now) # r) (rows df1) \<rparr>"
  define extra_cols where "extra_cols = filter (\<lambda>c. c \<notin> set ordered_cols) (columns df2)"
  define cols where "cols = ordered_cols @ extra_cols"
  define df3 where "df3 = select_columns cols df2"
  define df4 where "df4 = assign_column ''timestamp''
                    (\<lambda>r. or_null (to_datetime_strict (get_cell r ''timestamp''))) df3"
  define df5 where "df5 = assign_column ''period_sec''
                    (\<lambda>r. or_null (astype_int32 (get_cell r ''period_sec''))) df4"
  define df6 where "df6 = fold (\<lambda>c. assign_column c (\<lambda>r. to_numeric_coerce (get_cell r c)))
                    (STAT_COLS @ extra_cols) df5"
  note defs = df1_def df2_def extra_cols_def cols_def df3_def df4_def df5_def df6_def
  define f1 where "f1 = fold (\<lambda>c r. if c \<in> set cols0 then r else AList.update c Null r) STAT_COLS"
  define f3 where "f3 rec = map (\<lambda>c. (c, get_cell ((''extracted_at'', TS now) # f1 rec) c)) cols" for rec
  define f4 where "f4 rec = AList.update ''timestamp''
      (or_null (to_datetime_strict (get_cell (f3 rec) ''timestamp''))) (f3 rec)" for rec
  define f5 where "f5 rec = AList.update ''period_sec''
      (or_null (astype_int32 (get_cell (f4 rec) ''period_sec''))) (f4 rec)" for rec
  define f6 where "f6 rec = fold (\<lambda>c r. AList.update c (to_numeric_coerce (get_cell r c)) r)
      (STAT_COLS @ extra_cols) (f5 rec)" for rec
  have rows1: "rows df1 = map f1 records"
    unfolding df1_def f1_def cols0_def rows_fold_ensure_map[OF distinct_STAT_COLS]
    by (simp add: DataFrame_def)
  have rows3: "rows df3 = map f3 records"
    by (simp add: df3_def select_columns_def df2_def rows1 f3_def comp_def)
  have rows4: "rows df4 = map f4 records"
    by (simp add: df4_def rows_assign_column rows3 f4_def comp_def)
  have rows5: "rows df5 = map f5 records"
    by (simp add: df5_def rows_assign_column rows4 f5_def comp_def)
  have rows6: "rows df6 = map f6 records"
    by (simp add: df6_def rows_fold_assign rows5 f6_def comp_def)
  have g1: "get_cell (f1 rec) c = get_cell rec c" if "rec \<in> set records" for rec c
    using get_cell_not_column[OF _ that, of c]
    by (auto simp: f1_def get_cell_fill cols0_def)
  have base_in: "set ordered_cols \<subseteq> set cols" by (simp add: cols_def)
  have g3: "get_cell (f3 rec) c = get_cell rec c"
    if "rec \<in> set records" "c \<in> set ordered_cols" "c \<noteq> ''extracted_at''" for rec c
  proof -
    from that(2) base_in have "c \<in> set cols" by blast
    then show ?thesis
      unfolding f3_def by (simp add: get_cell_tabulate get_cell_Cons that(3) g1[OF that(1)])
  qed
  have oc: "''timestamp'' \<in> set ordered_cols" "''period_sec'' \<in> set ordered_cols"
    "''instance_id'' \<in> set ordered_cols" "''namespace'' \<in> set ordered_cols"
    "''metric_name'' \<in> set ordered_cols"
    by (simp_all add: ordered_cols_def)
  have ts: "\<exists>t. get_cell (f3 rec) ''timestamp'' = TS t" if "rec \<in> set records" for rec
    using g3[OF that oc(1)] wf_recordD(3)[of rec] wf that by auto
  have g4: "get_cell (f4 rec) c = get_cell rec c"
    if "rec \<in> set records" "c \<in> set ordered_cols" "c \<noteq> ''extracted_at''" for rec c
    using ts[OF that(1)] g3[OF that] g3[OF that(1) oc(1)]
    by (auto simp: f4_def get_cell_update or_null_def)
  have ps: "\<exists>q. get_cell (f4 rec) ''period_sec'' = Num q" if "rec \<in> set records" for rec
    using g4[OF that oc(2)] wf_recordD(4)[of rec] wf that by auto
  have c1: "''extracted_at'' \<notin> set (columns df1)"
  proof -
    have "''extracted_at'' \<notin> set (columns (DataFrame records))"
      using wf wf_recordD(2) by (auto simp: DataFrame_def set_first_seen has_key_def)
    then show ?thesis
      by (simp add: df1_def columns_fold_ensure extracted_at_not_stat)
  qed
  have c2: "find (\<lambda>c. c \<notin> set (columns df2)) ordered_cols = None"
  proof -
    obtain rec where rec: "rec \<in> set records" using ne by (cases records) auto
    have "c \<in> set (columns df2)" if "c \<in> set ordered_cols" for c
    proof -
      from that consider "c = ''extracted_at''" | "c \<in> set BASE_COLS" | "c \<in> set STAT_COLS"
        by (auto simp: ordered_cols_eq)
      then show ?thesis
      proof cases
        case 1
        then show ?thesis by (simp add: df2_def)
      next
        case 2
        with wf rec wf_recordD(1) have "has_key rec c" by blast
        with rec have "c \<in> set (columns (DataFrame records))"
          by (auto simp: DataFrame_def set_first_seen has_key_def)
        then show ?thesis by (simp add: df2_def df1_def columns_fold_ensure)
      next
        case 3
        then show ?thesis by (simp add: df2_def df1_def columns_fold_ensure)
      qed
    qed
    then show ?thesis by (auto simp: find_None_iff)
  qed
  have "to_datetime_strict (get_cell (f3 rec) ''timestamp'') \<noteq> None" if "rec \<in> set records" for rec
    using ts[OF that] by auto
  then have c3: "\<not> list_ex (\<lambda>r. to_datetime_strict (get_cell r ''timestamp'') = None) (rows df3)"
    by (auto simp: list_ex_iff rows3)
  have "astype_int32 (get_cell (f4 rec) ''period_sec'') \<noteq> None" if "rec \<in> set records" for rec
    using ps[OF that] by auto
  then have c4: "\<not> list_ex (\<lambda>r. astype_int32 (get_cell r ''period_sec'') = None) (rows df4)"
    by (auto simp: list_ex_iff rows4)
  let ?df = "df6 \<lparr> rows := sort_rows SORT_COLS (rows df6) \<rparr>"
  have res: "restructure_dataframe now records = Inr ?df"
    using restructure_dataframe_unfold[OF df1_def df2_def extra_cols_def df3_def[unfolded cols_def]
        df4_def df5_def df6_def] c1 c2 c3 c4
    by simp
  have fwd: "\<exists>row \<in> set (rows ?df).
      \<forall>c \<in> set [''instance_id'', ''namespace'', ''metric_name'', ''timestamp''].
        get_cell row c = get_cell rec c" if rec: "rec \<in> set records" for rec
  proof -
    have m: "f6 rec \<in> set (rows ?df)" using rec by (simp add: set_sort_rows rows6)
    have id: "get_cell (f6 rec) c = get_cell rec c"
      if c: "c \<in> set [''instance_id'', ''namespace'', ''metric_name'', ''timestamp'']" for c
    proof -
      from c have co: "c \<in> set ordered_cols" "c \<noteq> ''extracted_at''" "c \<noteq> ''period_sec''"
        "c \<notin> set STAT_COLS" using oc by (auto simp: STAT_COLS_def)
      then have ne: "c \<notin> set (STAT_COLS @ extra_cols)" by (auto simp: extra_cols_def)
      have "get_cell (f6 rec) c = get_cell (f5 rec) c"
        unfolding f6_def get_cell_fold_numeric using ne by simp
      also have "\<dots> = get_cell (f4 rec) c"
        using co(3) by (simp add: f5_def get_cell_update)
      also have "\<dots> = get_cell rec c" by (rule g4[OF rec co(1,2)])
      finally show ?thesis .
    qed
    from m id show ?thesis by blast
  qed
  from res fwd show ?thesis by blast
qed


lemma has_key_update: "has_key (AList.update k v r) c = (c = k \<or> has_key r c)"
  using dom_update[of k v r] by (auto simp: has_key_def)

lemma stat_column_prefix: "take 5 (stat_column s) = ''stat_''"
  by (simp add: stat_column_def)

lemma stat_column_neq: "take 5 c \<noteq> ''stat_'' \<Longrightarrow> stat_column s \<noteq> c"
  using stat_column_prefix by auto

lemma has_key_fold_stats:
  "take 5 c \<noteq> ''stat_'' \<Longrightarrow>
   has_key (fold (\<lambda>s. AList.update (stat_column s) (f s)) ss r) c = has_key r c"
  by (induction ss arbitrary: r) (auto simp: has_key_update dest: stat_column_neq)

lemma get_cell_fold_stats:
  "take 5 c \<noteq> ''stat_'' \<Longrightarrow>
   get_cell (fold (\<lambda>s. AList.update (stat_column s) (f s)) ss r) c = get_cell r c"
  by (induction ss arbitrary: r) (auto simp: get_cell_update dest: stat_column_neq)

lemma no_stat_prefix:
  "c \<in> set BASE_COLS \<Longrightarrow> take 5 c \<noteq> ''stat_''" "take 5 ''extracted_at'' \<noteq> ''stat_''"
  by (auto simp: BASE_COLS_def)

lemma has_key_merge_meta: "has_key (merge_meta inst r) c = (c \<in> set META_COLS \<or> has_key r c)"
  by (auto simp: merge_meta_def has_key_update META_COLS_def)

lemma get_cell_merge_meta:
  "c \<notin> set META_COLS \<Longrightarrow> get_cell (merge_meta inst r) c = get_cell r c"
  by (simp add: merge_meta_def get_cell_update META_COLS_def)

lemma has_key_datapoint_row:
  "take 5 c \<noteq> ''stat_'' \<Longrightarrow>
   has_key (datapoint_row ns dims md p dp) c =
     (c \<in> set [''namespace'', ''instance_id'', ''metric_name'', ''category'', ''timestamp'',
               ''unit'', ''period_sec''])"
  by (simp add: datapoint_row_def Let_def has_key_fold_stats) (auto simp: has_key_def)

lemma get_cell_datapoint_row:
  "get_cell (datapoint_row ns dims md p dp) ''timestamp'' = TS (dp_Timestamp dp)"
  "get_cell (datapoint_row ns dims md p dp) ''period_sec'' = Num (of_int p)"
  "get_cell (datapoint_row ns dims md p dp) ''namespace'' = Str ns"
  "get_cell (datapoint_row ns dims md p dp) ''metric_name'' = Str (metric md)"
  "get_cell (datapoint_row ns [(''InstanceId'', i)] md p dp) ''instance_id'' = Str i"
  by (simp_all add: datapoint_row_def Let_def get_cell_fold_stats get_cell_Cons)

lemma wf_extracted:
  "wf_record (merge_meta inst (datapoint_row ns dims md p dp))"
proof -
  let ?r = "merge_meta inst (datapoint_row ns dims md p dp)"
  have "has_key ?r c" if "c \<in> set BASE_COLS" for c
    using that has_key_datapoint_row[OF no_stat_prefix(1)[OF that], of ns dims md p dp]
    by (auto simp: has_key_merge_meta META_COLS_def BASE_COLS_def)
  then have a: "list_all (has_key ?r) BASE_COLS" by (simp add: list_all_iff)
  have b: "\<not> has_key ?r ''extracted_at''"
    using has_key_datapoint_row[OF no_stat_prefix(2), of ns dims md p dp]
    by (simp add: has_key_merge_meta META_COLS_def)
  have c: "get_cell ?r ''timestamp'' = TS (dp_Timestamp dp)"
    "get_cell ?r ''period_sec'' = Num (of_int p)"
    by (simp_all add: get_cell_merge_meta META_COLS_def get_cell_datapoint_row)
  from a b c show ?thesis by (simp add: wf_record_def)
qed

lemma fetch_metric_failed:
  "cw_client (request_args ns dims md st en p) = Inl e \<Longrightarrow>
   fetch_metric_datapoints cw_client ns dims md st en p = ([], [request_args ns dims md st en p])"
  by (simp add: fetch_metric_datapoints_def)

lemma fetch_metric_ok:
  "cw_client (request_args ns dims md st en p) = Inr (Some dps) \<Longrightarrow>
   fst (fetch_metric_datapoints cw_client ns dims md st en p) = map (datapoint_row ns dims md p) dps"
  by (simp add: fetch_metric_datapoints_def)

lemma fetch_metric_rows:
  "r \<in> set (fst (fetch_metric_datapoints cw_client ns dims md st en p)) \<Longrightarrow>
   \<exists>dp. r = datapoint_row ns dims md p dp"
  by (auto simp: fetch_metric_datapoints_def Let_def split: sum.splits option.splits)

lemma fetch_instance_rows:
  "r \<in> set (fst (fetch_instance_metrics cw_client inst memns st en p)) \<Longrightarrow> wf_record r"
proof -
  assume "r \<in> set (fst (fetch_instance_metrics cw_client inst memns st en p))"
  then obtain r0 ns md where "r = merge_meta inst r0"
    "r0 \<in> set (fst (fetch_metric_datapoints cw_client ns [(''InstanceId'', instance_id inst)] md st en p))"
    by (auto simp: fetch_instance_metrics_def Let_def)
  moreover from this(2) obtain dp
    where "r0 = datapoint_row ns [(''InstanceId'', instance_id inst)] md p dp"
    using fetch_metric_rows by blast
  ultimately show ?thesis by (simp add: wf_extracted)
qed

lemma fetch_instance_mem:
  assumes "ns = ''AWS/EC2'' \<and> md \<in> set EC2_STANDARD_METRICS \<or>
           ns = memns \<and> md \<in> set MEMORY_METRICS"
    and "cw_client (request_args ns [(''InstanceId'', instance_id inst)] md st en p) = Inr (Some dps)"
    and "dp \<in> set dps"
  shows "merge_meta inst (datapoint_row ns [(''InstanceId'', instance_id inst)] md p dp)
           \<in> set (fst (fetch_instance_metrics cw_client inst memns st en p))"
proof -
  let ?dims = "[(''InstanceId'', instance_id inst)]"
  have "datapoint_row ns ?dims md p dp \<in> set (fst (fetch_metric_datapoints cw_client ns ?dims md st en p))"
    using assms(2,3) by (simp add: fetch_metric_ok)
  with assms(1) show ?thesis
    by (auto simp: fetch_instance_metrics_def Let_def intro!: imageI)
qed

lemma extract_result:
  "\<exists>df. fst (extract_all_ec2_metrics cw_client instances memns st en p now) = Inr df \<and>
     (\<forall>inst \<in> set instances.
        \<forall>rec \<in> set (fst (fetch_instance_metrics cw_client inst memns st en p)).
          \<exists>row \<in> set (rows df).
            \<forall>c \<in> set [''instance_id'', ''namespace'', ''metric_name'', ''timestamp''].
              get_cell row c = get_cell rec c)"
proof (cases "instances = []")
  case True
  then show ?thesis by (simp add: extract_all_ec2_metrics_def)
next
  case False
  let ?all = "concat (map fst (map (\<lambda>inst. fetch_instance_metrics cw_client inst memns st en p) instances))"
  show ?thesis
  proof (cases "?all = []")
    case True
    then have "\<forall>inst \<in> set instances. fst (fetch_instance_metrics cw_client inst memns st en p) = []"
      by auto
    with True False show ?thesis by (simp add: extract_all_ec2_metrics_def Let_def)
  next
    case ne: False
    have wf: "\<forall>rec \<in> set ?all. wf_record rec"
      by (auto simp: fetch_instance_rows)
    from restructure_wf[OF ne wf, of now] obtain df where
      df: "restructure_dataframe now ?all = Inr df" and
      rws: "\<forall>rec \<in> set ?all. \<exists>row \<in> set (rows df).
              \<forall>c \<in> set [''instance_id'', ''namespace'', ''metric_name'', ''timestamp''].
                get_cell row c = get_cell rec c" by blast
    have "fst (extract_all_ec2_metrics cw_client instances memns st en p now) = Inr df"
      using False ne df unfolding extract_all_ec2_metrics_def Let_def
      by (simp only: if_False fst_conv)
    moreover have "\<forall>inst \<in> set instances.
        \<forall>rec \<in> set (fst (fetch_instance_metrics cw_client inst memns st en p)).
          \<exists>row \<in> set (rows df).
            \<forall>c \<in> set [''instance_id'', ''namespace'', ''metric_name'', ''timestamp''].
              get_cell row c = get_cell rec c"
    proof (intro ballI)
      fix inst rec
      assume "inst \<in> set instances"
        "rec \<in> set (fst (fetch_instance_metrics cw_client inst memns st en p))"
      then have "rec \<in> set ?all" by auto
      with rws show "\<exists>row \<in> set (rows df).
            \<forall>c \<in> set [''instance_id'', ''namespace'', ''metric_name'', ''timestamp''].
              get_cell row c = get_cell rec c" by blast
    qed
    ultimately show ?thesis by blast
  qed
qed

text \<open>
  Claim C3. A fetch whose upstream call raises gives the empty result for its
  (resource, metric) pair. Whatever calls fail, the extractor returns a frame, and
  that frame holds a row for every datapoint of every pair whose call succeeded: the
  row carries the instance id, the namespace, the metric name and the timestamp of
  the datapoint.
\<close>

theorem fetch_failure_is_isolated:
  assumes inst: "inst \<in> set instances"
    and md: "ns = ''AWS/EC2'' \<and> md \<in> set EC2_STANDARD_METRICS \<or>
             ns = memory_namespace \<and> md \<in> set MEMORY_METRICS"
    and ok: "cw_client (request_args ns [(''InstanceId'', instance_id inst)] md
               start_time end_time period) = Inr (Some dps)"
    and dp: "dp \<in> set dps"
  shows "(\<forall>ns' dims' md' e.
            cw_client (request_args ns' dims' md' start_time end_time period) = Inl e \<longrightarrow>
            fst (fetch_metric_datapoints cw_client ns' dims' md' start_time end_time period) = []) \<and>
         (\<exists>df. fst (extract_all_ec2_metrics cw_client instances memory_namespace
                       start_time end_time period now) = Inr df \<and>
            (\<exists>row \<in> set (rows df).
               get_cell row ''instance_id'' = Str (instance_id inst) \<and>
               get_cell row ''namespace'' = Str ns \<and>
               get_cell row ''metric_name'' = Str (metric md) \<and>
               get_cell row ''timestamp'' = TS (dp_Timestamp dp)))"
proof -
  let ?rec = "merge_meta inst (datapoint_row ns [(''InstanceId'', instance_id inst)] md period dp)"
  have m: "?rec \<in> set (fst (fetch_instance_metrics cw_client inst memory_namespace
                               start_time end_time period))"
    using md ok dp by (rule fetch_instance_mem)
  from extract_result[of cw_client instances memory_namespace start_time end_time period now]
  obtain df where df: "fst (extract_all_ec2_metrics cw_client instances memory_namespace
                       start_time end_time period now) = Inr df"
    and rws: "\<forall>inst \<in> set instances.
        \<forall>rec \<in> set (fst (fetch_instance_metrics cw_client inst memory_namespace start_time end_time period)).
          \<exists>row \<in> set (rows df).
            \<forall>c \<in> set [''instance_id'', ''namespace'', ''metric_name'', ''timestamp''].
              get_cell row c = get_cell rec c" by blast
  from rws inst m obtain row where row: "row \<in> set (rows df)"
    and g: "\<forall>c \<in> set [''instance_id'', ''namespace'', ''metric_name'', ''timestamp''].
              get_cell row c = get_cell ?rec c" by blast
  have v: "get_cell ?rec ''instance_id'' = Str (instance_id inst)"
    "get_cell ?rec ''namespace'' = Str ns"
    "get_cell ?rec ''metric_name'' = Str (metric md)"
    "get_cell ?rec ''timestamp'' = TS (dp_Timestamp dp)"
    by (simp_all add: get_cell_merge_meta META_COLS_def get_cell_datapoint_row)
  from g v have "get_cell row ''instance_id'' = Str (instance_id inst) \<and>
               get_cell row ''namespace'' = Str ns \<and>
               get_cell row ''metric_name'' = Str (metric md) \<and>
               get_cell row ''timestamp'' = TS (dp_Timestamp dp)" by simp
  with df row fetch_metric_failed[of cw_client _ _ _ start_time end_time period] show ?thesis
    by (metis fst_conv)
qed


lemma flaky_fails:
  "flaky_cw (request_args ''AWS/EC2'' [(''InstanceId'', instance_id web1)] cpu_metric 0 100 60) =
     Inl ''An error occurred (Throttling) when calling the GetMetricStatistics operation''"
  by code_simp

lemma flaky_answers:
  "flaky_cw (request_args ''AWS/EC2'' [(''InstanceId'', instance_id web2)] cpu_metric 0 100 60) =
     Inr (Some [noon_datapoint])"
  by code_simp

lemma cpu_metric_cataloged: "cpu_metric \<in> set EC2_STANDARD_METRICS"
  by (simp add: cpu_metric_def EC2_STANDARD_METRICS_def)

theorem fetch_failure_is_isolated_witness:
  "web2 \<in> set [web1, web2] \<and> cpu_metric \<in> set EC2_STANDARD_METRICS \<and>
   flaky_cw (request_args ''AWS/EC2'' [(''InstanceId'', instance_id web1)] cpu_metric 0 100 60) =
     Inl ''An error occurred (Throttling) when calling the GetMetricStatistics operation'' \<and>
   flaky_cw (request_args ''AWS/EC2'' [(''InstanceId'', instance_id web2)] cpu_metric 0 100 60) =
     Inr (Some [noon_datapoint]) \<and>
   noon_datapoint \<in> set [noon_datapoint] \<and>
   fst (fetch_metric_datapoints flaky_cw ''AWS/EC2'' [(''InstanceId'', instance_id web1)]
          cpu_metric 0 100 60) = [] \<and>
   (\<exists>df. fst (extract_all_ec2_metrics flaky_cw [web1, web2] ''CWAgent'' 0 100 60 7) = Inr df \<and>
      (\<exists>row \<in> set (rows df).
         get_cell row ''instance_id'' = Str ''i-2'' \<and>
         get_cell row ''namespace'' = Str ''AWS/EC2'' \<and>
         get_cell row ''metric_name'' = Str ''CPUUtilization'' \<and>
         get_cell row ''timestamp'' = TS 1704067200000000000))"
proof -
  have i: "web2 \<in> set [web1, web2]" by simp
  have c: "''AWS/EC2'' = ''AWS/EC2'' \<and> cpu_metric \<in> set EC2_STANDARD_METRICS \<or>
           ''AWS/EC2'' = ''CWAgent'' \<and> cpu_metric \<in> set MEMORY_METRICS"
    using cpu_metric_cataloged by simp
  have d: "noon_datapoint \<in> set [noon_datapoint]" by simp
  have v: "instance_id web2 = ''i-2''" "metric cpu_metric = ''CPUUtilization''"
    "dp_Timestamp noon_datapoint = 1704067200000000000"
    by (simp_all add: web2_def web1_def cpu_metric_def noon_datapoint_def)
  from fetch_failure_is_isolated[where inst = web2 and instances = "[web1, web2]"
      and ns = "''AWS/EC2''" and md = cpu_metric and memory_namespace = "''CWAgent''"
      and cw_client = flaky_cw and start_time = 0 and end_time = 100 and period = 60
      and dps = "[noon_datapoint]" and dp = noon_datapoint and now = 7, OF i c flaky_answers d]
  have a: "\<forall>ns' dims' md' e.
            flaky_cw (request_args ns' dims' md' 0 100 60) = Inl e \<longrightarrow>
            fst (fetch_metric_datapoints flaky_cw ns' dims' md' 0 100 60) = []"
    and b: "\<exists>df. fst (extract_all_ec2_metrics flaky_cw [web1, web2] ''CWAgent'' 0 100 60 7) = Inr df \<and>
      (\<exists>row \<in> set (rows df).
         get_cell row ''instance_id'' = Str ''i-2'' \<and>
         get_cell row ''namespace'' = Str ''AWS/EC2'' \<and>
         get_cell row ''metric_name'' = Str ''CPUUtilization'' \<and>
         get_cell row ''timestamp'' = TS 1704067200000000000)"
    unfolding v by blast+
  from a flaky_fails
  have "fst (fetch_metric_datapoints flaky_cw ''AWS/EC2'' [(''InstanceId'', instance_id web1)]
          cpu_metric 0 100 60) = []" by blast
  with i cpu_metric_cataloged flaky_fails flaky_answers d b show ?thesis by blast
qed

section \<open>The schema of the frames the extractor returns\<close>

lemma restructure_columns:
  assumes "restructure_dataframe now records = Inr df"
  shows "columns df = ordered_cols @
           filter (\<lambda>c. c \<notin> set ordered_cols)
             (''extracted_at'' # columns (fold ensure_column STAT_COLS (DataFrame records)))"
proof -
  define df1 where "df1 = fold ensure_column STAT_COLS (DataFrame records)"
  define df2 where "df2 = \<lparr> columns = ''extracted_at'' # columns df1,
                    rows = map (\<lambda>r. (''extracted_at'', TS now) # r) (rows df1) \<rparr>"
  define extra_cols where "extra_cols = filter (\<lambda>c. c \<notin> set ordered_cols) (columns df2)"
  define df3 where "df3 = select_columns (ordered_cols @ extra_cols) df2"
  define df4 where "df4 = assign_column ''timestamp''
                    (\<lambda>r. or_null (to_datetime_strict (get_cell r ''timestamp''))) df3"
  define df5 where "df5 = assign_column ''period_sec''
                    (\<lambda>r. or_null (astype_int32 (get_cell r ''period_sec''))) df4"
  define df6 where "df6 = fold (\<lambda>c. assign_column c (\<lambda>r. to_numeric_coerce (get_cell r c)))
                    (STAT_COLS @ extra_cols) df5"
  from assms
  have df: "df = df6 \<lparr> rows := sort_rows SORT_COLS (rows df6) \<rparr>"
    unfolding restructure_dataframe_unfold[OF df1_def df2_def extra_cols_def df3_def df4_def
        df5_def df6_def]
    by (auto split: if_splits option.splits)
  have ts: "''timestamp'' \<in> set (ordered_cols @ extra_cols)"
    "''period_sec'' \<in> set (ordered_cols @ extra_cols)"
    by (simp_all add: ordered_cols_def)
  have c3: "columns df3 = ordered_cols @ extra_cols" by (simp add: df3_def select_columns_def)
  have c4: "columns df4 = ordered_cols @ extra_cols"
    unfolding df4_def using ts c3 by (simp add: columns_assign_column)
  have c5: "columns df5 = ordered_cols @ extra_cols"
    unfolding df5_def using ts c4 by (simp add: columns_assign_column)
  have sub: "set (STAT_COLS @ extra_cols) \<subseteq> set (columns df5)"
    using STAT_COLS_ordered by (auto simp: c5)
  have "set cs \<subseteq> set (columns d) \<Longrightarrow>
      columns (fold (\<lambda>c. assign_column c (\<lambda>r. to_numeric_coerce (get_cell r c))) cs d) = columns d"
    for cs d
    by (induction cs arbitrary: d) (auto simp: columns_assign_column)
  from this[OF sub] have "columns df6 = ordered_cols @ extra_cols" by (simp add: df6_def c5)
  then show ?thesis by (simp add: df extra_cols_def df2_def df1_def)
qed

lemma has_key_fold_stats_iff:
  "has_key (fold (\<lambda>s. AList.update (stat_column s) (f s)) ss r) c =
     (c \<in> stat_column ` set ss \<or> has_key r c)"
  by (induction ss arbitrary: r) (auto simp: has_key_update)

lemma has_key_datapoint_row_iff:
  "has_key (datapoint_row ns dims md p dp) c =
     (c \<in> stat_column ` set (stats md) \<or>
      c \<in> set [''namespace'', ''instance_id'', ''metric_name'', ''category'', ''timestamp'',
               ''unit'', ''period_sec''])"
  by (simp add: datapoint_row_def Let_def has_key_fold_stats_iff) (auto simp: has_key_def)

lemma catalog_stats:
  "list_all (\<lambda>md. list_all (\<lambda>s. stat_column s \<in> set STAT_COLS) (stats md))
     (EC2_STANDARD_METRICS @ MEMORY_METRICS)"
  by code_simp

lemma catalog_stat_columns:
  "md \<in> set EC2_STANDARD_METRICS \<or> md \<in> set MEMORY_METRICS \<Longrightarrow>
   s \<in> set (stats md) \<Longrightarrow> stat_column s \<in> set STAT_COLS"
  using catalog_stats by (auto simp: list_all_iff)

lemma fetch_instance_keys:
  assumes "r \<in> set (fst (fetch_instance_metrics cw_client inst memns st en p))" "has_key r c"
  shows "c \<in> set ordered_cols"
proof -
  from assms(1) obtain r0 ns md where r: "r = merge_meta inst r0"
    and md: "md \<in> set EC2_STANDARD_METRICS \<or> md \<in> set MEMORY_METRICS"
    and r0: "r0 \<in> set (fst (fetch_metric_datapoints cw_client ns [(''InstanceId'', instance_id inst)] md st en p))"
    by (auto simp: fetch_instance_metrics_def Let_def)
  from r0 obtain dp where dp: "r0 = datapoint_row ns [(''InstanceId'', instance_id inst)] md p dp"
    using fetch_metric_rows by blast
  from assms(2) consider "c \<in> set META_COLS" | "c \<in> stat_column ` set (stats md)"
    | "c \<in> set [''namespace'', ''instance_id'', ''metric_name'', ''category'', ''timestamp'',
               ''unit'', ''period_sec'']"
    unfolding r dp has_key_merge_meta has_key_datapoint_row_iff by blast
  then show ?thesis
  proof cases
    case 1
    then show ?thesis by (auto simp: META_COLS_def ordered_cols_def)
  next
    case 2
    with catalog_stat_columns[OF md] STAT_COLS_ordered show ?thesis by blast
  next
    case 3
    then show ?thesis by (auto simp: ordered_cols_def)
  qed
qed

lemma extract_all_fst:
  "fst (extract_all_ec2_metrics cw_client instances memns st en p now) =
     (if instances = [] then Inr \<lparr> columns = [], rows = [] \<rparr>
      else if concat (map fst (map (\<lambda>inst. fetch_instance_metrics cw_client inst memns st en p)
                 instances)) = []
        then Inr \<lparr> columns = [], rows = [] \<rparr>
      else restructure_dataframe now
             (concat (map fst (map (\<lambda>inst. fetch_instance_metrics cw_client inst memns st en p)
                 instances))))"
  unfolding extract_all_ec2_metrics_def Let_def
  by (simp only: if_distrib[of fst] fst_conv)

lemma extract_restructure:
  assumes "fst (extract_all_ec2_metrics cw_client instances memns st en p now) = Inr df"
    and "rows df \<noteq> []"
  shows "restructure_dataframe now
           (concat (map fst (map (\<lambda>inst. fetch_instance_metrics cw_client inst memns st en p)
              instances))) = Inr df"
proof -
  define every where "every =
    concat (map fst (map (\<lambda>inst. fetch_instance_metrics cw_client inst memns st en p) instances))"
  have f: "fst (extract_all_ec2_metrics cw_client instances memns st en p now) =
     (if instances = [] then Inr \<lparr> columns = [], rows = [] \<rparr>
      else if every = [] then Inr \<lparr> columns = [], rows = [] \<rparr>
      else restructure_dataframe now every)"
    unfolding every_def by (rule extract_all_fst)
  show ?thesis
  proof (cases "instances = [] \<or> every = []")
    case True
    with f have "fst (extract_all_ec2_metrics cw_client instances memns st en p now) =
        Inr \<lparr> columns = [], rows = [] \<rparr>" by presburger
    with assms(1) have "df = \<lparr> columns = [], rows = [] \<rparr>" by simp
    then have "rows df = []" by simp
    with assms(2) show ?thesis by contradiction
  next
    case False
    with f have "fst (extract_all_ec2_metrics cw_client instances memns st en p now) =
        restructure_dataframe now every" by presburger
    with assms(1) show ?thesis by (simp only: every_def)
  qed
qed

lemma all_records_keys:
  assumes "rec \<in> set (concat (map fst (map (\<lambda>inst. fetch_instance_metrics cw_client inst memns st en p)
              instances)))" "has_key rec c"
  shows "c \<in> set ordered_cols"
proof -
  from assms(1) obtain inst where
    "rec \<in> set (fst (fetch_instance_metrics cw_client inst memns st en p))"
    unfolding set_concat set_map by blast
  from fetch_instance_keys[OF this assms(2)] show ?thesis .
qed

text \<open>
  With the metric catalog of the repository no record has a column outside the
  fixed twenty, so every frame with rows that the extractor returns has exactly the
  columns of \<open>ordered_cols\<close>.
\<close>

lemma extract_schema_fixed:
  assumes "fst (extract_all_ec2_metrics cw_client instances memns st en p now) = Inr df"
    and "rows df \<noteq> []"
  shows "columns df = ordered_cols"
proof -
  let ?all = "concat (map fst (map (\<lambda>inst. fetch_instance_metrics cw_client inst memns st en p) instances))"
  have r: "restructure_dataframe now ?all = Inr df"
    by (rule extract_restructure[OF assms])
  have "c \<in> set ordered_cols" if "c \<in> set (columns (DataFrame ?all))" for c
  proof -
    from that have "c \<in> set (concat (map (map fst) ?all))"
      by (simp only: DataFrame_def set_first_seen dataframe.simps)
    then obtain ks where "ks \<in> set (map (map fst) ?all)" "c \<in> set ks"
      unfolding set_concat by blast
    then obtain rec where "rec \<in> set ?all" "ks = map fst rec"
      unfolding set_map by blast
    with \<open>c \<in> set ks\<close> have "rec \<in> set ?all" "c \<in> set (map fst rec)" by simp_all
    then show ?thesis using all_records_keys[of rec] by (simp only: has_key_def)
  qed
  then have k: "set (columns (DataFrame ?all)) \<subseteq> set ordered_cols" by blast
  have ea: "''extracted_at'' \<in> set ordered_cols" by (simp add: ordered_cols_def)
  have "set (columns (fold ensure_column STAT_COLS (DataFrame ?all))) =
        set STAT_COLS \<union> set (columns (DataFrame ?all))"
    by (rule columns_fold_ensure)
  with k STAT_COLS_ordered
  have "set (columns (fold ensure_column STAT_COLS (DataFrame ?all))) \<subseteq> set ordered_cols"
    by blast
  with ea have "set (''extracted_at'' # columns (fold ensure_column STAT_COLS (DataFrame ?all)))
       \<subseteq> set ordered_cols"
    by (simp only: list.set insert_subset simp_thms)
  then have "filter (\<lambda>c. c \<notin> set ordered_cols)
       (''extracted_at'' # columns (fold ensure_column STAT_COLS (DataFrame ?all))) = []"
    unfolding filter_empty_conv by blast
  with restructure_columns[OF r] show ?thesis by simp
qed

end
